theory Spec2Isabelle
  imports Main "HOL-Library.Word" "HOL-Library.Sublist"
begin

section \<open>The circuit arena of Nodes.h\<close>

text \<open>
  The simulation kernel of the repository: \<open>CircuitData\<close> (the arena), \<open>NodeTerminal\<close>,
  \<open>WireNode\<close>, the example nodes \<open>Constant\<close>, \<open>ANDGate\<close>, \<open>ROM\<close> and \<open>Printer\<close>, the
  operations \<open>add\<close>, \<open>get\<close>, \<open>connect\<close>, \<open>process_all\<close>, \<open>propagate_all\<close>, and the
  program \<open>main\<close>.

  Identities are \<open>uint32_t\<close>, modelled as \<open>32 word\<close>; vector sizes are \<open>size_t\<close> and are
  modelled by the length of the list, so the conversion \<open>nodeID_t id = m_nodes.size()\<close> is
  the truncating \<open>of_nat\<close>.
\<close>

type_synonym uint32_t = "32 word"
type_synonym nodeID_t = uint32_t
type_synonym edgeID_t = uint32_t

definition nullNode_t :: nodeID_t where
  "nullNode_t = 0"

definition nullEdge_t :: edgeID_t where
  "nullEdge_t = 0"

subsection \<open>Failures\<close>

text \<open>
  The only exception the source can throw is \<open>std::out_of_range\<close>, from
  \<open>std::vector::at\<close>. The other three failures are undefined behaviour in C++:
  dereferencing a null \<open>shared_ptr\<close>, a \<open>static_pointer_cast\<close> to a type the object does not
  have, and \<open>std::array::operator[]\<close> beyond the array.
\<close>

datatype error = out_of_range | null_deref | bad_cast | array_bounds

fun checked :: "error \<Rightarrow> bool" where
  "checked out_of_range = True"
| "checked null_deref = False"
| "checked bad_cast = False"
| "checked array_bounds = False"

subsection \<open>Terminals and wires\<close>

record NodeTerminal =
  m_parentID :: nodeID_t
  m_id :: edgeID_t

definition NodeTerminal_init :: NodeTerminal where
  "NodeTerminal_init = \<lparr>m_parentID = nullNode_t, m_id = nullEdge_t\<rparr>"

record 'a WireNode =
  m_value :: 'a
  m_in :: nodeID_t
  m_out :: nodeID_t

text \<open>
  A \<open>Connection\<close> object in \<open>m_edges\<close> is a \<open>WireNode<bool>\<close> or a \<open>WireNode<uint32_t>\<close>,
  the two instances the nodes use. The constructor is the dynamic type of the object.
\<close>

datatype Connection =
  WireNode_bool "bool WireNode"
| WireNode_uint32 "uint32_t WireNode"

datatype wire_type = T_bool | T_uint32

fun wire_type_of :: "Connection \<Rightarrow> wire_type" where
  "wire_type_of (WireNode_bool w) = T_bool"
| "wire_type_of (WireNode_uint32 w) = T_uint32"

text \<open>\<open>std::make_shared<TYPE_T>()\<close>: the members take their default initialisers.\<close>

fun make_wire :: "wire_type \<Rightarrow> Connection" where
  "make_wire T_bool = WireNode_bool \<lparr>m_value = False, m_in = nullNode_t, m_out = nullNode_t\<rparr>"
| "make_wire T_uint32 = WireNode_uint32 \<lparr>m_value = 0, m_in = nullNode_t, m_out = nullNode_t\<rparr>"

fun wire_in :: "Connection \<Rightarrow> nodeID_t" where
  "wire_in (WireNode_bool w) = m_in w"
| "wire_in (WireNode_uint32 w) = m_in w"

fun wire_out :: "Connection \<Rightarrow> nodeID_t" where
  "wire_out (WireNode_bool w) = m_out w"
| "wire_out (WireNode_uint32 w) = m_out w"

fun set_ends :: "Connection \<Rightarrow> nodeID_t \<Rightarrow> nodeID_t \<Rightarrow> Connection" where
  "set_ends (WireNode_bool w) i out = WireNode_bool (w\<lparr>m_in := i, m_out := out\<rparr>)"
| "set_ends (WireNode_uint32 w) i out = WireNode_uint32 (w\<lparr>m_in := i, m_out := out\<rparr>)"

text \<open>The number a wire's value prints as: \<open>std::cout\<close> writes a \<open>bool\<close> as 0 or 1.\<close>

fun wire_number :: "Connection \<Rightarrow> nat" where
  "wire_number (WireNode_bool w) = (if m_value w then 1 else 0)"
| "wire_number (WireNode_uint32 w) = unat (m_value w)"

subsection \<open>Nodes\<close>

record Constant =
  m_state :: bool
  m_output :: NodeTerminal

record ANDGate =
  m_inA :: NodeTerminal
  m_inB :: NodeTerminal
  m_output :: NodeTerminal
  m_outVal :: bool

text \<open>\<open>ROM<SIZE>\<close>: the template parameter \<open>SIZE\<close> is the length of \<open>m_data\<close>.\<close>

record ROM =
  m_data :: "uint32_t list"
  m_pc :: uint32_t
  m_output :: NodeTerminal

record Printer =
  m_input :: NodeTerminal

datatype Node =
  Node_Constant Constant
| Node_ANDGate ANDGate
| Node_ROM ROM
| Node_Printer_bool Printer
| Node_Printer_uint32 Printer

text \<open>The static type of a node, as the template argument of \<open>get\<close> names it.\<close>

datatype node_type = K_Constant | K_ANDGate | K_ROM nat | K_Printer wire_type

fun node_type_of :: "Node \<Rightarrow> node_type" where
  "node_type_of (Node_Constant c) = K_Constant"
| "node_type_of (Node_ANDGate g) = K_ANDGate"
| "node_type_of (Node_ROM r) = K_ROM (length (m_data r))"
| "node_type_of (Node_Printer_bool p) = K_Printer T_bool"
| "node_type_of (Node_Printer_uint32 p) = K_Printer T_uint32"

text \<open>The nodes as their constructors leave them.\<close>

definition Constant_init :: Constant where
  "Constant_init = \<lparr>m_state = False, Constant.m_output = NodeTerminal_init\<rparr>"

definition ANDGate_init :: ANDGate where
  "ANDGate_init = \<lparr>m_inA = NodeTerminal_init, m_inB = NodeTerminal_init,
     ANDGate.m_output = NodeTerminal_init, m_outVal = False\<rparr>"

definition ROM_init :: "uint32_t list \<Rightarrow> ROM" where
  "ROM_init data = \<lparr>m_data = data, m_pc = 0, ROM.m_output = NodeTerminal_init\<rparr>"

definition Printer_init :: Printer where
  "Printer_init = \<lparr>m_input = NodeTerminal_init\<rparr>"

definition jmp :: "ROM \<Rightarrow> uint32_t \<Rightarrow> ROM" where
  "jmp r addr = r\<lparr>m_pc := addr\<rparr>"

subsection \<open>The arena\<close>

text \<open>
  Both vectors hold \<open>shared_ptr\<close>s; \<open>None\<close> is the null pointer. The constructor puts one
  null pointer in each.
\<close>

record CircuitData =
  m_edges :: "Connection option list"
  m_nodes :: "Node option list"

definition CircuitData_init :: CircuitData where
  "CircuitData_init = \<lparr>m_edges = [None], m_nodes = [None]\<rparr>"

definition add :: "CircuitData \<Rightarrow> Node \<Rightarrow> CircuitData \<times> nodeID_t" where
  "add rData node =
     (let new_id = (of_nat (length (m_nodes rData)) :: nodeID_t)
      in (rData\<lparr>m_nodes := m_nodes rData @ [Some node]\<rparr>, new_id))"

text \<open>
  \<open>std::vector::at\<close> with an index of type \<open>uint32_t\<close>.
\<close>

definition at_vec :: "'a list \<Rightarrow> uint32_t \<Rightarrow> error + 'a" where
  "at_vec v i = (if unat i < length v then Inr (v ! unat i) else Inl out_of_range)"

text \<open>
  \<open>CircuitData::get<NODE_T>(id)\<close> returns a \<open>shared_ptr<NODE_T>\<close>: the null pointer stays
  null under the cast, and the cast of an object of another type is undefined.
\<close>

definition get :: "node_type \<Rightarrow> CircuitData \<Rightarrow> nodeID_t \<Rightarrow> error + Node option" where
  "get k rData i =
     (case at_vec (m_nodes rData) i of
        Inl e \<Rightarrow> Inl e
      | Inr None \<Rightarrow> Inr None
      | Inr (Some n) \<Rightarrow> if node_type_of n = k then Inr (Some n) else Inl bad_cast)"

text \<open>
  \<open>NodeTerminal<CONNECTION_T>::get\<close>, declared to return \<open>CONNECTION_T&\<close>: the pointer
  found at \<open>m_id\<close> is cast and dereferenced. (The \<open>return\<close> statement of the source names
  the cast pointer itself; every caller goes on with \<open>.m_value\<close>, which only the wire has.)
  One function for each instance.
\<close>

definition get_bool :: "NodeTerminal \<Rightarrow> CircuitData \<Rightarrow> error + bool WireNode" where
  "get_bool t rData =
     (case at_vec (m_edges rData) (m_id t) of
        Inl e \<Rightarrow> Inl e
      | Inr None \<Rightarrow> Inl null_deref
      | Inr (Some (WireNode_bool w)) \<Rightarrow> Inr w
      | Inr (Some (WireNode_uint32 w)) \<Rightarrow> Inl bad_cast)"

definition get_uint32 :: "NodeTerminal \<Rightarrow> CircuitData \<Rightarrow> error + uint32_t WireNode" where
  "get_uint32 t rData =
     (case at_vec (m_edges rData) (m_id t) of
        Inl e \<Rightarrow> Inl e
      | Inr None \<Rightarrow> Inl null_deref
      | Inr (Some (WireNode_uint32 w)) \<Rightarrow> Inr w
      | Inr (Some (WireNode_bool w)) \<Rightarrow> Inl bad_cast)"

text \<open>The assignment \<open>t.get(rData).m_value = x\<close> through the reference.\<close>

definition assign_bool :: "NodeTerminal \<Rightarrow> CircuitData \<Rightarrow> bool \<Rightarrow> error + CircuitData" where
  "assign_bool t rData x =
     (case get_bool t rData of
        Inl e \<Rightarrow> Inl e
      | Inr w \<Rightarrow> Inr (rData\<lparr>m_edges :=
          (m_edges rData)[unat (m_id t) := Some (WireNode_bool (w\<lparr>m_value := x\<rparr>))]\<rparr>))"

definition assign_uint32 :: "NodeTerminal \<Rightarrow> CircuitData \<Rightarrow> uint32_t \<Rightarrow> error + CircuitData" where
  "assign_uint32 t rData x =
     (case get_uint32 t rData of
        Inl e \<Rightarrow> Inl e
      | Inr w \<Rightarrow> Inr (rData\<lparr>m_edges :=
          (m_edges rData)[unat (m_id t) := Some (WireNode_uint32 (w\<lparr>m_value := x\<rparr>))]\<rparr>))"

text \<open>
  \<open>NodeTerminal<CONNECTION_T>::get\<close> at the instance a wire type names, with the wire it
  yields as a \<open>Connection\<close>.
\<close>

definition resolve :: "wire_type \<Rightarrow> NodeTerminal \<Rightarrow> CircuitData \<Rightarrow> error + Connection" where
  "resolve ty t rData =
     (case ty of
        T_bool \<Rightarrow> (case get_bool t rData of Inl e \<Rightarrow> Inl e | Inr w \<Rightarrow> Inr (WireNode_bool w))
      | T_uint32 \<Rightarrow>
          (case get_uint32 t rData of Inl e \<Rightarrow> Inl e | Inr w \<Rightarrow> Inr (WireNode_uint32 w)))"

subsection \<open>connect\<close>

text \<open>
  \<open>SysCircuit::connect<TYPE_T>(rData, a, b)\<close>. The two terminals are passed by reference
  and updated in place: the model takes them by value and returns them updated, with the
  arena. When \<open>a\<close> and \<open>b\<close> are one object both results are equal, as in the source.
\<close>

definition connect ::
  "wire_type \<Rightarrow> CircuitData \<Rightarrow> NodeTerminal \<Rightarrow> NodeTerminal
     \<Rightarrow> CircuitData \<times> NodeTerminal \<times> NodeTerminal" where
  "connect ty rData a b =
     (let new_id = (of_nat (length (m_edges rData)) :: edgeID_t);
          edges = m_edges rData @ [Some (make_wire ty)];
          a' = a\<lparr>m_id := new_id\<rparr>;
          b' = b\<lparr>m_id := new_id\<rparr>;
          connection = set_ends (make_wire ty) (m_parentID a') (m_parentID b')
      in (rData\<lparr>m_edges := edges[length (m_edges rData) := Some connection]\<rparr>, a', b'))"

text \<open>
  A terminal of a node in the arena is named as the caller names it,
  \<open>data.get<K>(id)->member\<close>.
\<close>

datatype member = M_output | M_inA | M_inB | M_input

fun terminal_of :: "Node \<Rightarrow> member \<Rightarrow> (wire_type \<times> NodeTerminal) option" where
  "terminal_of (Node_Constant c) M_output = Some (T_bool, Constant.m_output c)"
| "terminal_of (Node_ANDGate g) M_inA = Some (T_bool, m_inA g)"
| "terminal_of (Node_ANDGate g) M_inB = Some (T_bool, m_inB g)"
| "terminal_of (Node_ANDGate g) M_output = Some (T_bool, ANDGate.m_output g)"
| "terminal_of (Node_ROM r) M_output = Some (T_uint32, ROM.m_output r)"
| "terminal_of (Node_Printer_bool p) M_input = Some (T_bool, m_input p)"
| "terminal_of (Node_Printer_uint32 p) M_input = Some (T_uint32, m_input p)"
| "terminal_of n m = None"

fun set_terminal :: "Node \<Rightarrow> member \<Rightarrow> NodeTerminal \<Rightarrow> Node" where
  "set_terminal (Node_Constant c) M_output t = Node_Constant (c\<lparr>Constant.m_output := t\<rparr>)"
| "set_terminal (Node_ANDGate g) M_inA t = Node_ANDGate (g\<lparr>m_inA := t\<rparr>)"
| "set_terminal (Node_ANDGate g) M_inB t = Node_ANDGate (g\<lparr>m_inB := t\<rparr>)"
| "set_terminal (Node_ANDGate g) M_output t = Node_ANDGate (g\<lparr>ANDGate.m_output := t\<rparr>)"
| "set_terminal (Node_ROM r) M_output t = Node_ROM (r\<lparr>ROM.m_output := t\<rparr>)"
| "set_terminal (Node_Printer_bool p) M_input t = Node_Printer_bool (p\<lparr>m_input := t\<rparr>)"
| "set_terminal (Node_Printer_uint32 p) M_input t = Node_Printer_uint32 (p\<lparr>m_input := t\<rparr>)"
| "set_terminal n m t = n"

type_synonym terminal_ref = "node_type \<times> nodeID_t \<times> member"

text \<open>
  \<open>data.get<K>(id)->member\<close>: \<open>get\<close>, then the dereference of the pointer it returned.
  A member the type \<open>K\<close> does not have, and two terminals of different wire types, are
  not C++ programs; the model gives them \<open>bad_cast\<close>.
\<close>

definition deref_terminal :: "CircuitData \<Rightarrow> terminal_ref \<Rightarrow> error + wire_type \<times> NodeTerminal" where
  "deref_terminal rData r =
     (case r of (k, i, m) \<Rightarrow>
        (case get k rData i of
           Inl e \<Rightarrow> Inl e
         | Inr None \<Rightarrow> Inl null_deref
         | Inr (Some n) \<Rightarrow>
             (case terminal_of n m of None \<Rightarrow> Inl bad_cast | Some tt \<Rightarrow> Inr tt)))"

definition store_terminal :: "CircuitData \<Rightarrow> terminal_ref \<Rightarrow> NodeTerminal \<Rightarrow> CircuitData" where
  "store_terminal rData r t =
     (case r of (k, i, m) \<Rightarrow>
        (case m_nodes rData ! unat i of
           None \<Rightarrow> rData
         | Some n \<Rightarrow> rData\<lparr>m_nodes := (m_nodes rData)[unat i := Some (set_terminal n m t)]\<rparr>))"

definition connect_at :: "CircuitData \<Rightarrow> terminal_ref \<Rightarrow> terminal_ref \<Rightarrow> error + CircuitData" where
  "connect_at rData ra rb =
     (case deref_terminal rData ra of
        Inl e \<Rightarrow> Inl e
      | Inr (ty, a) \<Rightarrow>
          (case deref_terminal rData rb of
             Inl e \<Rightarrow> Inl e
           | Inr (ty', b) \<Rightarrow>
               if ty' \<noteq> ty then Inl bad_cast
               else (case connect ty rData a b of
                       (rData', a', b') \<Rightarrow>
                         Inr (store_terminal (store_terminal rData' ra a') rb b'))))"

subsection \<open>The two phases of a node\<close>

text \<open>
  The state a phase runs in is the arena and what has been written to \<open>std::cout\<close>, one
  number for each line. \<open>process\<close> and \<open>propagate\<close> receive the node (\<open>this\<close>) and the
  arena by reference; the model returns both.
\<close>

type_synonym world = "CircuitData \<times> nat list"

fun process :: "Node \<Rightarrow> world \<Rightarrow> error + Node \<times> world" where
  "process (Node_Constant c) (rData, cout) = Inr (Node_Constant c, rData, cout)"
| "process (Node_ANDGate g) (rData, cout) =
     (case get_bool (m_inA g) rData of
        Inl e \<Rightarrow> Inl e
      | Inr wa \<Rightarrow>
          if m_value wa
          then (case get_bool (m_inB g) rData of
                  Inl e \<Rightarrow> Inl e
                | Inr wb \<Rightarrow> Inr (Node_ANDGate (g\<lparr>m_outVal := m_value wb\<rparr>), rData, cout))
          else Inr (Node_ANDGate (g\<lparr>m_outVal := False\<rparr>), rData, cout))"
| "process (Node_ROM r) (rData, cout) = Inr (Node_ROM r, rData, cout)"
| "process (Node_Printer_bool p) (rData, cout) =
     (case get_bool (m_input p) rData of
        Inl e \<Rightarrow> Inl e
      | Inr w \<Rightarrow> Inr (Node_Printer_bool p, rData, cout @ [wire_number (WireNode_bool w)]))"
| "process (Node_Printer_uint32 p) (rData, cout) =
     (case get_uint32 (m_input p) rData of
        Inl e \<Rightarrow> Inl e
      | Inr w \<Rightarrow> Inr (Node_Printer_uint32 p, rData, cout @ [wire_number (WireNode_uint32 w)]))"

text \<open>
  In \<open>ROM::propagate\<close> the right operand \<open>m_data[m_pc]\<close> is evaluated before the terminal
  is resolved, as C++17 sequences an assignment. \<open>(++m_pc) %= SIZE\<close> increments the 32-bit counter and reduces it modulo
  \<open>SIZE\<close>; \<open>SIZE = 0\<close> never gets there, the array access before it being out of bounds.
\<close>

fun propagate :: "Node \<Rightarrow> world \<Rightarrow> error + Node \<times> world" where
  "propagate (Node_Constant c) (rData, cout) =
     (case assign_bool (Constant.m_output c) rData (m_state c) of
        Inl e \<Rightarrow> Inl e
      | Inr rData' \<Rightarrow> Inr (Node_Constant c, rData', cout))"
| "propagate (Node_ANDGate g) (rData, cout) =
     (case assign_bool (ANDGate.m_output g) rData (m_outVal g) of
        Inl e \<Rightarrow> Inl e
      | Inr rData' \<Rightarrow> Inr (Node_ANDGate g, rData', cout))"
| "propagate (Node_ROM r) (rData, cout) =
     (if unat (m_pc r) < length (m_data r)
      then (case assign_uint32 (ROM.m_output r) rData (m_data r ! unat (m_pc r)) of
              Inl e \<Rightarrow> Inl e
            | Inr rData' \<Rightarrow>
                Inr (Node_ROM (r\<lparr>m_pc := of_nat (unat (m_pc r + 1) mod length (m_data r))\<rparr>),
                     rData', cout))
      else Inl array_bounds)"
| "propagate (Node_Printer_bool p) (rData, cout) = Inr (Node_Printer_bool p, rData, cout)"
| "propagate (Node_Printer_uint32 p) (rData, cout) = Inr (Node_Printer_uint32 p, rData, cout)"

subsection \<open>The driver\<close>

text \<open>
  \<open>for (auto& node : rData.m_nodes) if (node) node->phase(rData)\<close>: the node at each index
  in turn, null pointers skipped, the node written back where it stands. An exception
  leaves the loop.
\<close>

definition run_node :: "(Node \<Rightarrow> world \<Rightarrow> error + Node \<times> world) \<Rightarrow> nat \<Rightarrow> world \<Rightarrow> error + world" where
  "run_node phase i s =
     (case m_nodes (fst s) ! i of
        None \<Rightarrow> Inr s
      | Some node \<Rightarrow>
          (case phase node s of
             Inl e \<Rightarrow> Inl e
           | Inr (node', rData', cout') \<Rightarrow>
               Inr (rData'\<lparr>m_nodes := (m_nodes rData')[i := Some node']\<rparr>, cout')))"

fun for_each :: "(nat \<Rightarrow> world \<Rightarrow> error + world) \<Rightarrow> nat list \<Rightarrow> world \<Rightarrow> error + world" where
  "for_each body [] s = Inr s"
| "for_each body (i # js) s =
     (case body i s of Inl e \<Rightarrow> Inl e | Inr s' \<Rightarrow> for_each body js s')"

definition process_all :: "world \<Rightarrow> error + world" where
  "process_all s = for_each (run_node process) [0..<length (m_nodes (fst s))] s"

definition propagate_all :: "world \<Rightarrow> error + world" where
  "propagate_all s = for_each (run_node propagate) [0..<length (m_nodes (fst s))] s"

text \<open>The body of the clock loop of \<open>main\<close>.\<close>

definition tick :: "world \<Rightarrow> error + world" where
  "tick s = (case process_all s of Inl e \<Rightarrow> Inl e | Inr s' \<Rightarrow> propagate_all s')"

fun ticks :: "nat \<Rightarrow> world \<Rightarrow> error + world" where
  "ticks 0 s = Inr s"
| "ticks (Suc n) s = (case tick s of Inl e \<Rightarrow> Inl e | Inr s' \<Rightarrow> ticks n s')"

subsection \<open>main\<close>

definition romData :: "uint32_t list" where
  "romData = [0, 1, 2, 3, 4, 5, 6, 7, 8, 9, 10, 11, 12, 13, 14, 15]"

text \<open>
  The program up to the clock loop, and the program with the loop bound \<open>n\<close>. The call
  \<open>m_nodes.reserve(5)\<close> changes no element and has no counterpart here.
\<close>

definition main_setup :: "error + CircuitData" where
  "main_setup =
     (case add CircuitData_init (Node_Printer_uint32 Printer_init) of
        (data1, printer) \<Rightarrow>
          (case add data1 (Node_ROM (ROM_init romData)) of
             (data2, rom) \<Rightarrow>
               connect_at data2 (K_ROM 16, rom, M_output) (K_Printer T_uint32, printer, M_input)))"

definition main_clk :: "nat \<Rightarrow> error + world" where
  "main_clk n = (case main_setup of Inl e \<Rightarrow> Inl e | Inr data \<Rightarrow> ticks n (data, []))"

definition main :: "error + world" where
  "main = main_clk 36"

subsection \<open>Harness\<close>

text \<open>\<open>n\<close> successive calls of one phase on one node.\<close>

fun calls ::
  "(Node \<Rightarrow> world \<Rightarrow> error + Node \<times> world) \<Rightarrow> nat \<Rightarrow> Node \<Rightarrow> world \<Rightarrow> error + Node \<times> world" where
  "calls phase 0 node s = Inr (node, s)"
| "calls phase (Suc n) node s =
     (case phase node s of Inl e \<Rightarrow> Inl e | Inr (node', s') \<Rightarrow> calls phase n node' s')"

text \<open>
  The arena of \<open>main\<close> once the clock loop runs: the printer at 1, the ROM at 2, one wire
  at 1 holding \<open>v\<close>, the ROM's counter at \<open>pc\<close>.
\<close>

definition main_data :: "uint32_t \<Rightarrow> uint32_t \<Rightarrow> CircuitData" where
  "main_data v pc =
     \<lparr>m_edges = [None, Some (WireNode_uint32 \<lparr>m_value = v, m_in = 0, m_out = 0\<rparr>)],
      m_nodes = [None,
        Some (Node_Printer_uint32 \<lparr>m_input = \<lparr>m_parentID = 0, m_id = 1\<rparr>\<rparr>),
        Some (Node_ROM \<lparr>m_data = romData, m_pc = pc,
                ROM.m_output = \<lparr>m_parentID = 0, m_id = 1\<rparr>\<rparr>)]\<rparr>"

subsection \<open>What a tick takes from the wires\<close>

text \<open>
  The line a printer writes and the value an AND gate latches when they are processed in
  the arena \<open>rData\<close>; the gate's expression stops at \<open>m_inA\<close> when that wire is false.
\<close>

fun reads :: "CircuitData \<Rightarrow> Node option \<Rightarrow> nat list" where
  "reads rData (Some (Node_Printer_bool p)) =
     (case get_bool (m_input p) rData of Inl e \<Rightarrow> [] | Inr w \<Rightarrow> [wire_number (WireNode_bool w)])"
| "reads rData (Some (Node_Printer_uint32 p)) =
     (case get_uint32 (m_input p) rData of Inl e \<Rightarrow> [] | Inr w \<Rightarrow> [wire_number (WireNode_uint32 w)])"
| "reads rData n = []"

definition wire_bool :: "CircuitData \<Rightarrow> NodeTerminal \<Rightarrow> bool option" where
  "wire_bool rData t = (case get_bool t rData of Inl e \<Rightarrow> None | Inr w \<Rightarrow> Some (m_value w))"

fun latch :: "CircuitData \<Rightarrow> Node \<Rightarrow> Node" where
  "latch rData (Node_ANDGate g) =
     Node_ANDGate (g\<lparr>m_outVal :=
       (wire_bool rData (m_inA g) = Some True \<and> wire_bool rData (m_inB g) = Some True)\<rparr>)"
| "latch rData n = n"

text \<open>The propagate phase keeps every AND gate and writes nothing to \<open>std::cout\<close>.\<close>

definition gates_kept :: "world \<Rightarrow> world \<Rightarrow> bool" where
  "gates_kept s s' \<longleftrightarrow>
     snd s' = snd s \<and> length (m_nodes (fst s')) = length (m_nodes (fst s))
     \<and> (\<forall>i g. i < length (m_nodes (fst s)) \<and> m_nodes (fst s) ! i = Some (Node_ANDGate g)
          \<longrightarrow> m_nodes (fst s') ! i = Some (Node_ANDGate g))"

text \<open>
  An AND gate at 1 whose output feeds its own first input through wire 1, and a Constant
  at 2 that drives the second input through wire 2.
\<close>

definition feedback_data :: "bool \<Rightarrow> bool \<Rightarrow> bool \<Rightarrow> CircuitData" where
  "feedback_data v1 v2 latched =
     \<lparr>m_edges = [None,
        Some (WireNode_bool \<lparr>m_value = v1, m_in = 0, m_out = 0\<rparr>),
        Some (WireNode_bool \<lparr>m_value = v2, m_in = 0, m_out = 0\<rparr>)],
      m_nodes = [None,
        Some (Node_ANDGate \<lparr>m_inA = \<lparr>m_parentID = 0, m_id = 1\<rparr>,
                m_inB = \<lparr>m_parentID = 0, m_id = 2\<rparr>,
                ANDGate.m_output = \<lparr>m_parentID = 0, m_id = 1\<rparr>, m_outVal = latched\<rparr>),
        Some (Node_Constant \<lparr>m_state = False,
                Constant.m_output = \<lparr>m_parentID = 0, m_id = 2\<rparr>\<rparr>)]\<rparr>"

subsection \<open>Sequences of operations\<close>

text \<open>
  What a caller can do with an arena: \<open>add\<close> a node, \<open>connect\<close> two terminals of nodes
  in the arena, run either phase over all nodes, and \<open>jmp\<close> a ROM, reached as
  \<open>data.get<ROM<N>>(id)->jmp(addr)\<close>. An exception ends the sequence.
\<close>

datatype operation =
  Op_add Node
| Op_connect terminal_ref terminal_ref
| Op_process_all
| Op_propagate_all
| Op_jmp nodeID_t uint32_t

fun apply_op :: "operation \<Rightarrow> world \<Rightarrow> error + world" where
  "apply_op (Op_add node) (rData, cout) = Inr (fst (add rData node), cout)"
| "apply_op (Op_connect ra rb) (rData, cout) =
     (case connect_at rData ra rb of Inl e \<Rightarrow> Inl e | Inr rData' \<Rightarrow> Inr (rData', cout))"
| "apply_op Op_process_all s = process_all s"
| "apply_op Op_propagate_all s = propagate_all s"
| "apply_op (Op_jmp i addr) (rData, cout) =
     (case at_vec (m_nodes rData) i of
        Inl e \<Rightarrow> Inl e
      | Inr None \<Rightarrow> Inl null_deref
      | Inr (Some (Node_ROM r)) \<Rightarrow>
          Inr (rData\<lparr>m_nodes := (m_nodes rData)[unat i := Some (Node_ROM (jmp r addr))]\<rparr>, cout)
      | Inr (Some n) \<Rightarrow> Inl bad_cast)"

fun run :: "operation list \<Rightarrow> world \<Rightarrow> error + world" where
  "run [] s = Inr s"
| "run (op # ops) s = (case apply_op op s of Inl e \<Rightarrow> Inl e | Inr s' \<Rightarrow> run ops s')"

fun is_setup :: "operation \<Rightarrow> bool" where
  "is_setup (Op_add node) = True"
| "is_setup (Op_connect ra rb) = True"
| "is_setup op = False"

text \<open>
  What stays of an element while it is updated in place: the type of a node, and the type
  and the two ends of a wire. An arena \<open>grows\<close> into another when its elements are still
  there, in their places.
\<close>

fun wire_kind :: "Connection \<Rightarrow> wire_type \<times> nodeID_t \<times> nodeID_t" where
  "wire_kind c = (wire_type_of c, wire_in c, wire_out c)"

definition node_types :: "CircuitData \<Rightarrow> node_type option list" where
  "node_types rData = map (map_option node_type_of) (m_nodes rData)"

definition wire_kinds :: "CircuitData \<Rightarrow> (wire_type \<times> nodeID_t \<times> nodeID_t) option list" where
  "wire_kinds rData = map (map_option wire_kind) (m_edges rData)"

definition grows :: "CircuitData \<Rightarrow> CircuitData \<Rightarrow> bool" where
  "grows rData rData' \<longleftrightarrow>
     prefix (node_types rData) (node_types rData') \<and> prefix (wire_kinds rData) (wire_kinds rData')"

text \<open>A wire, or the null pointer, that holds no other value than its type's default.\<close>

fun holds_default :: "Connection option \<Rightarrow> bool" where
  "holds_default None = True"
| "holds_default (Some c) = (wire_number c = 0)"

text \<open>The calls of \<open>main\<close> before the clock loop.\<close>

definition main_ops :: "operation list" where
  "main_ops =
     [Op_add (Node_Printer_uint32 Printer_init),
      Op_add (Node_ROM (ROM_init romData)),
      Op_connect (K_ROM 16, 2, M_output) (K_Printer T_uint32, 1, M_input)]"

text \<open>
  A second construction: an AND gate at 1, a Constant set to true at 2 and a bool printer
  at 3; the Constant drives the gate's first input through wire 1, the gate drives the
  printer through wire 2, and the gate's second input is left unattached. \<open>gate_data\<close> is
  the arena these calls build.
\<close>

definition gate_ops :: "operation list" where
  "gate_ops =
     [Op_add (Node_ANDGate ANDGate_init),
      Op_add (Node_Constant (Constant_init\<lparr>m_state := True\<rparr>)),
      Op_add (Node_Printer_bool Printer_init),
      Op_connect (K_Constant, 2, M_output) (K_ANDGate, 1, M_inA),
      Op_connect (K_ANDGate, 1, M_output) (K_Printer T_bool, 3, M_input)]"

definition gate_data :: CircuitData where
  "gate_data =
     \<lparr>m_edges = [None, Some (make_wire T_bool), Some (make_wire T_bool)],
      m_nodes = [None,
        Some (Node_ANDGate \<lparr>m_inA = \<lparr>m_parentID = 0, m_id = 1\<rparr>,
                m_inB = \<lparr>m_parentID = 0, m_id = 0\<rparr>,
                ANDGate.m_output = \<lparr>m_parentID = 0, m_id = 2\<rparr>, m_outVal = False\<rparr>),
        Some (Node_Constant \<lparr>m_state = True,
                Constant.m_output = \<lparr>m_parentID = 0, m_id = 1\<rparr>\<rparr>),
        Some (Node_Printer_bool \<lparr>m_input = \<lparr>m_parentID = 0, m_id = 2\<rparr>\<rparr>)]\<rparr>"

section \<open>Properties\<close>

subsection \<open>Wires and words\<close>

lemma wire_type_of_set_ends: "wire_type_of (set_ends c i j) = wire_type_of c"
  by (cases c) simp_all

lemma wire_in_set_ends: "wire_in (set_ends c i j) = i"
  by (cases c) simp_all

lemma wire_out_set_ends: "wire_out (set_ends c i j) = j"
  by (cases c) simp_all

lemma wire_type_of_make_wire: "wire_type_of (make_wire ty) = ty"
  by (cases ty) simp_all

lemma set_ends_null: "set_ends (make_wire ty) nullNode_t nullNode_t = make_wire ty"
  by (cases ty) simp_all

lemma unat_of_nat_len: "n < 2 ^ 32 \<Longrightarrow> unat (of_nat n :: 32 word) = n"
  by (simp add: unat_of_nat)

subsection \<open>connect\<close>

lemma connect_eq:
  "connect ty rData a b =
     (rData\<lparr>m_edges := m_edges rData @ [Some (set_ends (make_wire ty) (m_parentID a) (m_parentID b))]\<rparr>,
      a\<lparr>m_id := of_nat (length (m_edges rData))\<rparr>,
      b\<lparr>m_id := of_nat (length (m_edges rData))\<rparr>)"
  by (simp add: connect_def Let_def)

lemma resolve_at:
  assumes "unat (m_id t) < length (m_edges rData)"
    and "m_edges rData ! unat (m_id t) = Some w"
  shows "resolve (wire_type_of w) t rData = Inr w"
  using assms by (cases w) (simp_all add: resolve_def get_bool_def get_uint32_def at_vec_def)

text \<open>
  C6. \<open>connect\<close> on two terminals of wire type \<open>ty\<close> appends exactly one wire of that type
  to \<open>m_edges\<close> and changes nothing else in the arena; both terminals receive the same
  identity, the size of \<open>m_edges\<close> before the call as a \<open>uint32_t\<close>, so both resolve to
  the same element; while \<open>m_edges\<close> holds fewer than \<open>2 ^ 32\<close> elements that identity is
  the position of the new wire, and \<open>NodeTerminal::get\<close> on either terminal yields the new
  wire. This holds for all terminals, unattached ones among them.
\<close>

theorem connect_joins_terminals:
  assumes "connect ty rData a b = (rData', a', b')"
  shows "\<exists>w. m_edges rData' = m_edges rData @ [Some w]
           \<and> wire_type_of w = ty
           \<and> m_nodes rData' = m_nodes rData
           \<and> m_id a' = of_nat (length (m_edges rData)) \<and> m_id b' = m_id a'
           \<and> resolve ty a' rData' = resolve ty b' rData'
           \<and> (length (m_edges rData) < 2 ^ 32 \<longrightarrow>
                unat (m_id a') = length (m_edges rData)
                \<and> resolve ty a' rData' = Inr w \<and> resolve ty b' rData' = Inr w)"
proof -
  let ?w = "set_ends (make_wire ty) (m_parentID a) (m_parentID b)"
  from assms have r: "rData' = rData\<lparr>m_edges := m_edges rData @ [Some ?w]\<rparr>"
    and a: "a' = a\<lparr>m_id := of_nat (length (m_edges rData))\<rparr>"
    and b: "b' = b\<lparr>m_id := of_nat (length (m_edges rData))\<rparr>"
    by (simp_all add: connect_eq)
  have ty: "wire_type_of ?w = ty"
    by (simp add: wire_type_of_set_ends wire_type_of_make_wire)
  have same: "resolve ty a' rData' = resolve ty b' rData'"
    by (cases ty) (simp_all add: a b resolve_def get_bool_def get_uint32_def)
  have new: "length (m_edges rData) < 2 ^ 32 \<longrightarrow>
      unat (m_id a') = length (m_edges rData)
      \<and> resolve ty a' rData' = Inr ?w \<and> resolve ty b' rData' = Inr ?w"
  proof
    assume "length (m_edges rData) < 2 ^ 32"
    then have u: "unat (m_id a') = length (m_edges rData)"
      by (simp add: a unat_of_nat_len)
    have "resolve (wire_type_of ?w) a' rData' = Inr ?w"
      by (rule resolve_at) (simp_all add: u r)
    with u same show "unat (m_id a') = length (m_edges rData)
      \<and> resolve ty a' rData' = Inr ?w \<and> resolve ty b' rData' = Inr ?w"
      by (simp add: ty)
  qed
  from r a b ty same new show ?thesis
    by (intro exI [of _ ?w]) simp
qed

theorem connect_joins_terminals_witness:
  "connect T_bool \<lparr>m_edges = [None, Some (make_wire T_uint32)], m_nodes = [None]\<rparr>
      NodeTerminal_init NodeTerminal_init
     = (\<lparr>m_edges = [None, Some (make_wire T_uint32), Some (make_wire T_bool)], m_nodes = [None]\<rparr>,
        NodeTerminal_init\<lparr>m_id := 2\<rparr>, NodeTerminal_init\<lparr>m_id := 2\<rparr>)
   \<and> length (m_edges \<lparr>m_edges = [None, Some (make_wire T_uint32)], m_nodes = [None]\<rparr>) < 2 ^ 32
   \<and> resolve T_bool (NodeTerminal_init\<lparr>m_id := 2\<rparr>)
        \<lparr>m_edges = [None, Some (make_wire T_uint32), Some (make_wire T_bool)], m_nodes = [None]\<rparr>
       = Inr (make_wire T_bool)"
proof -
  let ?d = "\<lparr>m_edges = [None, Some (make_wire T_uint32)], m_nodes = [None]\<rparr>"
  let ?d' = "\<lparr>m_edges = [None, Some (make_wire T_uint32), Some (make_wire T_bool)], m_nodes = [None]\<rparr>"
  let ?t = "NodeTerminal_init\<lparr>m_id := 2\<rparr>"
  have c: "connect T_bool ?d NodeTerminal_init NodeTerminal_init = (?d', ?t, ?t)"
    by (simp add: connect_eq NodeTerminal_init_def set_ends_null del: make_wire.simps)
  have l: "length (m_edges ?d) < 2 ^ 32"
    by simp
  from connect_joins_terminals [OF c] l obtain w where
    "m_edges ?d' = m_edges ?d @ [Some w]" and "resolve T_bool ?t ?d' = Inr w"
    by blast
  then have e: "resolve T_bool ?t ?d' = Inr (make_wire T_bool)"
    by (simp del: make_wire.simps)
  show ?thesis
    by (intro conjI c l e)
qed

text \<open>
  C5. \<open>connect\<close> has no precondition and rejects nothing: whatever the two terminals'
  \<open>m_id\<close> were, attached or not, it appends one wire, keeps every wire the arena already
  held in its place, and binds both terminals to the identity of the new wire.
\<close>

theorem connect_never_rejects:
  "m_id (fst (snd (connect ty rData a b))) = of_nat (length (m_edges rData))
   \<and> m_id (snd (snd (connect ty rData a b))) = of_nat (length (m_edges rData))
   \<and> length (m_edges (fst (connect ty rData a b))) = Suc (length (m_edges rData))
   \<and> take (length (m_edges rData)) (m_edges (fst (connect ty rData a b))) = m_edges rData
   \<and> m_nodes (fst (connect ty rData a b)) = m_nodes rData"
  by (simp add: connect_eq)

theorem connect_rebinds_counterexample:
  "connect T_uint32
     \<lparr>m_edges = [None, Some (make_wire T_uint32)], m_nodes = [None]\<rparr>
     \<lparr>m_parentID = 0, m_id = 1\<rparr> \<lparr>m_parentID = 0, m_id = 1\<rparr>
   = (\<lparr>m_edges = [None, Some (make_wire T_uint32), Some (make_wire T_uint32)],
        m_nodes = [None]\<rparr>,
      \<lparr>m_parentID = 0, m_id = 2\<rparr>, \<lparr>m_parentID = 0, m_id = 2\<rparr>)"
  by (simp add: connect_eq nullNode_t_def)

subsection \<open>The process phase\<close>

lemma process_arena: "process node s = Inr (node', s') \<Longrightarrow> fst s' = fst s"
  by (cases node; cases s) (auto split: sum.splits if_splits)

lemma for_each_preserves:
  assumes step: "\<And>i s s'. body i s = Inr s' \<Longrightarrow> f s' = f s"
  shows "for_each body js s = Inr s' \<Longrightarrow> f s' = f s"
proof (induction js arbitrary: s)
  case Nil
  then show ?case by simp
next
  case (Cons i js)
  then show ?case
    by (auto split: sum.splits dest: step)
qed

lemma run_node_process_edges:
  "run_node process i s = Inr s' \<Longrightarrow> m_edges (fst s') = m_edges (fst s)"
  by (auto simp: run_node_def split: option.splits sum.splits dest: process_arena)

text \<open>
  C7. \<open>process\<close> of a node of any kind, when it returns, leaves \<open>m_edges\<close> as it was: no
  wire is written. So does \<open>process_all\<close>.
\<close>

theorem process_writes_no_wire:
  "(process node s = Inr (node', s') \<longrightarrow> m_edges (fst s') = m_edges (fst s))
   \<and> (process_all s = Inr s'' \<longrightarrow> m_edges (fst s'') = m_edges (fst s))"
proof
  show "process node s = Inr (node', s') \<longrightarrow> m_edges (fst s') = m_edges (fst s)"
    by (auto dest: process_arena)
  show "process_all s = Inr s'' \<longrightarrow> m_edges (fst s'') = m_edges (fst s)"
    unfolding process_all_def
    using for_each_preserves [where body = "run_node process" and f = "\<lambda>s. m_edges (fst s)"]
    by (blast dest: run_node_process_edges)
qed

subsection \<open>The program\<close>

lemma main_setup_eq: "main_setup = Inr (main_data 0 0)"
  by (simp add: main_setup_def main_data_def add_def CircuitData_init_def connect_at_def
      deref_terminal_def get_def at_vec_def Printer_init_def ROM_init_def romData_def
      connect_eq store_terminal_def NodeTerminal_init_def nullNode_t_def nullEdge_t_def)

theorem connect_identity_wraps_counterexample:
  "connect T_bool
     \<lparr>m_edges = None # replicate 4294967295 (Some (make_wire T_bool)), m_nodes = [None]\<rparr>
     NodeTerminal_init NodeTerminal_init
   = (\<lparr>m_edges = None # replicate 4294967295 (Some (make_wire T_bool)) @ [Some (make_wire T_bool)],
        m_nodes = [None]\<rparr>,
      NodeTerminal_init, NodeTerminal_init)
   \<and> m_id NodeTerminal_init = nullEdge_t
   \<and> get_bool NodeTerminal_init
        \<lparr>m_edges = None # replicate 4294967295 (Some (make_wire T_bool)) @ [Some (make_wire T_bool)],
         m_nodes = [None]\<rparr>
     = Inl null_deref
   \<and> main_setup = Inr (main_data 0 0)
   \<and> map_option node_type_of (m_nodes (main_data 0 0) ! 2) = Some (K_ROM 16)
   \<and> map_option node_type_of (m_nodes (main_data 0 0) ! 1) = Some (K_Printer T_uint32)
   \<and> map_option wire_in (m_edges (main_data 0 0) ! 1) = Some nullNode_t
   \<and> map_option wire_out (m_edges (main_data 0 0) ! 1) = Some nullNode_t
   \<and> nullNode_t \<noteq> (2 :: nodeID_t) \<and> nullNode_t \<noteq> (1 :: nodeID_t)"
proof -
  have wrap: "connect T_bool
     \<lparr>m_edges = None # replicate 4294967295 (Some (make_wire T_bool)), m_nodes = [None]\<rparr>
     NodeTerminal_init NodeTerminal_init
   = (\<lparr>m_edges = None # replicate 4294967295 (Some (make_wire T_bool)) @ [Some (make_wire T_bool)],
        m_nodes = [None]\<rparr>,
      NodeTerminal_init, NodeTerminal_init)
   \<and> m_id NodeTerminal_init = nullEdge_t
   \<and> get_bool NodeTerminal_init
        \<lparr>m_edges = None # replicate 4294967295 (Some (make_wire T_bool)) @ [Some (make_wire T_bool)],
         m_nodes = [None]\<rparr>
     = Inl null_deref"
    by (simp add: connect_eq NodeTerminal_init_def set_ends_null nullEdge_t_def get_bool_def
        at_vec_def del: make_wire.simps)
  have ends: "map_option node_type_of (m_nodes (main_data 0 0) ! 2) = Some (K_ROM 16)
   \<and> map_option node_type_of (m_nodes (main_data 0 0) ! 1) = Some (K_Printer T_uint32)
   \<and> map_option wire_in (m_edges (main_data 0 0) ! 1) = Some nullNode_t
   \<and> map_option wire_out (m_edges (main_data 0 0) ! 1) = Some nullNode_t
   \<and> nullNode_t \<noteq> (2 :: nodeID_t) \<and> nullNode_t \<noteq> (1 :: nodeID_t)"
    by (simp add: main_data_def romData_def nullNode_t_def)
  from wrap main_setup_eq ends show ?thesis
    by (simp only: simp_thms)
qed

lemma upt_3: "[0..<3] = [0, 1, 2]"
  by (simp add: upt_rec)

lemma process_all_main_data:
  "process_all (main_data v pc, cout) = Inr (main_data v pc, cout @ [unat v])"
  by (simp add: process_all_def main_data_def upt_3 run_node_def get_uint32_def at_vec_def)

lemma propagate_all_main_data:
  "unat pc < 16 \<Longrightarrow>
   propagate_all (main_data v pc, cout)
     = Inr (main_data (romData ! unat pc) (of_nat (unat (pc + 1) mod 16)), cout)"
  by (simp add: propagate_all_def main_data_def upt_3 run_node_def get_uint32_def at_vec_def
      assign_uint32_def romData_def)

lemma tick_main_data:
  "unat pc < 16 \<Longrightarrow>
   tick (main_data v pc, cout)
     = Inr (main_data (romData ! unat pc) (of_nat (unat (pc + 1) mod 16)), cout @ [unat v])"
  by (simp add: tick_def process_all_main_data propagate_all_main_data)



lemma ticks_numeral:
  "ticks (numeral k) s = (case tick s of Inl e \<Rightarrow> Inl e | Inr s' \<Rightarrow> ticks (pred_numeral k) s')"
  by (simp add: numeral_eq_Suc)

lemma ticks_1: "ticks 1 s = tick s"
  by (simp add: One_nat_def split: sum.splits)

lemma main_20:
  "main_clk 20 = Inr (main_data 3 4,
     [0, 0, 1, 2, 3, 4, 5, 6, 7, 8, 9, 10, 11, 12, 13, 14, 15, 0, 1, 2])"
  by (simp add: main_clk_def main_setup_eq ticks_numeral ticks_1 tick_main_data romData_def)

lemma main_36:
  "main_clk 36 = Inr (main_data 3 4,
     [0, 0, 1, 2, 3, 4, 5, 6, 7, 8, 9, 10, 11, 12, 13, 14, 15,
      0, 1, 2, 3, 4, 5, 6, 7, 8, 9, 10, 11, 12, 13, 14, 15, 0, 1, 2])"
  by (simp add: main_clk_def main_setup_eq ticks_numeral ticks_1 tick_main_data romData_def)

theorem process_writes_no_wire_witness:
  "process (Node_Printer_uint32 \<lparr>m_input = \<lparr>m_parentID = 0, m_id = 1\<rparr>\<rparr>) (main_data 7 0, [])
     = Inr (Node_Printer_uint32 \<lparr>m_input = \<lparr>m_parentID = 0, m_id = 1\<rparr>\<rparr>, main_data 7 0, [7])
   \<and> m_edges (fst (main_data 7 0, [7 :: nat])) = m_edges (fst (main_data 7 0, [] :: nat list))
   \<and> process_all (main_data 5 2, []) = Inr (main_data 5 2, [5])
   \<and> m_edges (fst (main_data 5 2, [5 :: nat])) = m_edges (fst (main_data 5 2, [] :: nat list))"
proof -
  let ?p = "Node_Printer_uint32 \<lparr>m_input = \<lparr>m_parentID = 0, m_id = 1\<rparr>\<rparr>"
  have a: "process ?p (main_data 7 0, []) = Inr (?p, main_data 7 0, [7])"
    by (simp add: main_data_def get_uint32_def at_vec_def)
  have b: "process_all (main_data 5 2, []) = Inr (main_data 5 2, [5])"
    by (simp add: process_all_main_data)
  from process_writes_no_wire [of ?p "(main_data 7 0, [])" ?p "(main_data 7 0, [7])"] a
  have c: "m_edges (fst (main_data 7 0, [7 :: nat])) = m_edges (fst (main_data 7 0, [] :: nat list))"
    by blast
  from process_writes_no_wire [of _ "(main_data 5 2, [])" _ _ "(main_data 5 2, [5])"] b
  have d: "m_edges (fst (main_data 5 2, [5 :: nat])) = m_edges (fst (main_data 5 2, [] :: nat list))"
    by blast
  show ?thesis
    by (intro conjI a c b d)
qed

text \<open>
  C3. \<open>main\<close> with the loop bound 20 writes 0, the value the wire is created with, and then
  0, 1, ..., 15, 0, 1, 2: twenty lines, the ROM's values one tick late. With the bound 36,
  the one in the source, it writes 0, then 0..15 twice, then 0, 1, 2.
\<close>

theorem main_observed:
  "main_clk 20 = Inr (main_data 3 4,
     [0, 0, 1, 2, 3, 4, 5, 6, 7, 8, 9, 10, 11, 12, 13, 14, 15, 0, 1, 2])
   \<and> main = Inr (main_data 3 4,
     [0, 0, 1, 2, 3, 4, 5, 6, 7, 8, 9, 10, 11, 12, 13, 14, 15,
      0, 1, 2, 3, 4, 5, 6, 7, 8, 9, 10, 11, 12, 13, 14, 15, 0, 1, 2])"
  by (simp only: main_def main_20 main_36 simp_thms)

theorem main_observed_counterexample:
  "map_sum id snd (main_clk 20)
     \<noteq> Inr [0, 1, 2, 3, 4, 5, 6, 7, 8, 9, 10, 11, 12, 13, 14, 15, 0, 1, 2, 3]
   \<and> map_sum id snd (main_clk 36)
     \<noteq> Inr [0, 1, 2, 3, 4, 5, 6, 7, 8, 9, 10, 11, 12, 13, 14, 15,
            0, 1, 2, 3, 4, 5, 6, 7, 8, 9, 10, 11, 12, 13, 14, 15, 0, 1, 2, 3]"
  by (simp add: main_20 main_36)

subsection \<open>The ROM\<close>

lemma get_uint32_index: "get_uint32 t rData = Inr w \<Longrightarrow> unat (m_id t) < length (m_edges rData)"
  by (auto simp: get_uint32_def at_vec_def split: if_splits)

lemma get_uint32_update:
  "unat (m_id t) < length (m_edges rData) \<Longrightarrow>
   get_uint32 t (rData\<lparr>m_edges := (m_edges rData)[unat (m_id t) := Some (WireNode_uint32 w')]\<rparr>)
     = Inr w'"
  by (simp add: get_uint32_def at_vec_def)

lemma propagate_ROM:
  assumes "unat (m_pc r) < length (m_data r)" and "get_uint32 (ROM.m_output r) rData = Inr w"
  shows "propagate (Node_ROM r) (rData, cout) =
           Inr (Node_ROM (r\<lparr>m_pc := of_nat (unat (m_pc r + 1) mod length (m_data r))\<rparr>),
                rData\<lparr>m_edges := (m_edges rData)[unat (m_id (ROM.m_output r)) :=
                  Some (WireNode_uint32 (w\<lparr>m_value := m_data r ! unat (m_pc r)\<rparr>))]\<rparr>,
                cout)"
  using assms by (simp add: assign_uint32_def)

lemma pc_step:
  fixes pc :: uint32_t
  assumes "n \<le> 2 ^ 32" and "unat pc < n"
  shows "unat (pc + 1) mod n = Suc (unat pc) mod n"
proof (cases "unat pc + 1 < 2 ^ 32")
  case True
  then have "unat (pc + 1) = unat pc + 1"
    by (simp add: unat_word_ariths)
  then show ?thesis by simp
next
  case False
  with assms have n: "n = unat pc + 1" and full: "unat pc + 1 = 2 ^ 32"
    by simp_all
  have "unat (pc + 1) = (unat pc + 1) mod 2 ^ 32"
    by (simp add: unat_word_ariths)
  with full have "unat (pc + 1) = 0" by simp
  with n show ?thesis by simp
qed

lemma calls_propagate_ROM:
  assumes n: "length (m_data r) \<le> 2 ^ 32"
  shows "unat (m_pc r) < length (m_data r) \<Longrightarrow> get_uint32 (ROM.m_output r) rData = Inr w \<Longrightarrow>
    \<exists>rData'. calls propagate k (Node_ROM r) (rData, cout) =
        Inr (Node_ROM (r\<lparr>m_pc := of_nat ((unat (m_pc r) + k) mod length (m_data r))\<rparr>), rData', cout)
      \<and> get_uint32 (ROM.m_output r) rData' =
          Inr (w\<lparr>m_value := (case k of 0 \<Rightarrow> m_value w
                 | Suc j \<Rightarrow> m_data r ! ((unat (m_pc r) + j) mod length (m_data r)))\<rparr>)"
  using n
proof (induction k arbitrary: r rData w)
  case 0
  then show ?case by simp
next
  case (Suc k)
  let ?n = "length (m_data r)"
  let ?p = "unat (m_pc r)"
  let ?r = "r\<lparr>m_pc := of_nat (Suc ?p mod ?n)\<rparr>"
  let ?w = "w\<lparr>m_value := m_data r ! ?p\<rparr>"
  let ?d = "rData\<lparr>m_edges := (m_edges rData)[unat (m_id (ROM.m_output r)) := Some (WireNode_uint32 ?w)]\<rparr>"
  have step: "propagate (Node_ROM r) (rData, cout) = Inr (Node_ROM ?r, ?d, cout)"
    using propagate_ROM [OF Suc.prems(1,2)] pc_step [OF Suc.prems(3,1)] by simp
  have lt: "Suc ?p mod ?n < 2 ^ 32"
  proof -
    have "0 < ?n" using Suc.prems(1) by (cases "m_data r") simp_all
    then have "Suc ?p mod ?n < ?n" by (rule mod_less_divisor)
    with Suc.prems(3) show ?thesis by linarith
  qed
  have pc': "unat (of_nat (Suc ?p mod ?n) :: 32 word) = Suc ?p mod ?n"
    using lt by (simp add: unat_of_nat_len)
  have pos: "0 < ?n" using Suc.prems(1) by (cases "m_data r") simp_all
  have a: "unat (m_pc ?r) < length (m_data ?r)"
    using pos by (simp add: pc')
  have b: "get_uint32 (ROM.m_output ?r) ?d = Inr ?w"
    using get_uint32_update [OF get_uint32_index [OF Suc.prems(2)]] by simp
  have c: "length (m_data ?r) \<le> 2 ^ 32"
    using Suc.prems(3) by simp
  from Suc.IH [OF a b c] obtain rData' where
    run: "calls propagate k (Node_ROM ?r) (?d, cout) =
        Inr (Node_ROM (?r\<lparr>m_pc := of_nat ((unat (m_pc ?r) + k) mod length (m_data ?r))\<rparr>), rData', cout)"
    and val: "get_uint32 (ROM.m_output ?r) rData' =
          Inr (?w\<lparr>m_value := (case k of 0 \<Rightarrow> m_value ?w
                 | Suc j \<Rightarrow> m_data ?r ! ((unat (m_pc ?r) + j) mod length (m_data ?r)))\<rparr>)"
    by blast
  have m: "\<And>j. (Suc ?p mod ?n + j) mod ?n = Suc (?p + j) mod ?n"
    by (simp add: mod_add_left_eq)
  have m3: "?p mod ?n = ?p"
    using Suc.prems(1) by simp
  have first: "calls propagate (Suc k) (Node_ROM r) (rData, cout)
      = calls propagate k (Node_ROM ?r) (?d, cout)"
    by (simp add: step del: propagate.simps)
  have run': "calls propagate k (Node_ROM ?r) (?d, cout) =
      Inr (Node_ROM (r\<lparr>m_pc := of_nat ((?p + Suc k) mod ?n)\<rparr>), rData', cout)"
    using run by (simp add: pc' m del: propagate.simps)
  have val': "get_uint32 (ROM.m_output r) rData' =
      Inr (w\<lparr>m_value := m_data r ! ((?p + k) mod ?n)\<rparr>)"
    using val by (cases k) (simp_all add: pc' m m3)
  show ?case
    using first run' val' by (intro exI [of _ rData']) (simp del: propagate.simps calls.simps)
qed


text \<open>
  C2. For a ROM whose table has length \<open>N \<le> 2 ^ 32\<close>, whose counter is below \<open>N\<close> and whose
  output terminal resolves to a wire: one \<open>propagate\<close> writes the table value at the
  counter to that wire and sets the counter to its successor modulo \<open>N\<close>; \<open>N\<close> successive
  calls bring the ROM back to the state it started in, and call \<open>N + 1\<close> writes the value
  the first call wrote.
\<close>

theorem ROM_propagate_cycle:
  assumes "length (m_data r) \<le> 2 ^ 32"
    and "unat (m_pc r) < length (m_data r)"
    and "get_uint32 (ROM.m_output r) rData = Inr w"
  shows "\<exists>rData1 rDataN rDataN1.
      propagate (Node_ROM r) (rData, cout)
        = Inr (Node_ROM (r\<lparr>m_pc := of_nat (Suc (unat (m_pc r)) mod length (m_data r))\<rparr>),
               rData1, cout)
    \<and> unat (of_nat (Suc (unat (m_pc r)) mod length (m_data r)) :: uint32_t)
        = Suc (unat (m_pc r)) mod length (m_data r)
    \<and> get_uint32 (ROM.m_output r) rData1 = Inr (w\<lparr>m_value := m_data r ! unat (m_pc r)\<rparr>)
    \<and> calls propagate (length (m_data r)) (Node_ROM r) (rData, cout)
        = Inr (Node_ROM r, rDataN, cout)
    \<and> calls propagate (Suc (length (m_data r))) (Node_ROM r) (rData, cout)
        = Inr (Node_ROM (r\<lparr>m_pc := of_nat (Suc (unat (m_pc r)) mod length (m_data r))\<rparr>),
               rDataN1, cout)
    \<and> get_uint32 (ROM.m_output r) rDataN1 = Inr (w\<lparr>m_value := m_data r ! unat (m_pc r)\<rparr>)"
proof -
  let ?n = "length (m_data r)"
  let ?p = "unat (m_pc r)"
  let ?d = "rData\<lparr>m_edges := (m_edges rData)[unat (m_id (ROM.m_output r)) :=
              Some (WireNode_uint32 (w\<lparr>m_value := m_data r ! ?p\<rparr>))]\<rparr>"
  have pos: "0 < ?n" using assms(2) by (cases "m_data r") simp_all
  have pm: "?p mod ?n = ?p" using assms(2) by simp
  have one: "propagate (Node_ROM r) (rData, cout)
      = Inr (Node_ROM (r\<lparr>m_pc := of_nat (Suc ?p mod ?n)\<rparr>), ?d, cout)"
    using propagate_ROM [OF assms(2,3)] pc_step [OF assms(1,2)] by simp
  have "Suc ?p mod ?n < ?n" using pos by simp
  with assms(1) have "Suc ?p mod ?n < 2 ^ 32" by linarith
  then have two: "unat (of_nat (Suc ?p mod ?n) :: uint32_t) = Suc ?p mod ?n"
    by (rule unat_of_nat_len)
  have three: "get_uint32 (ROM.m_output r) ?d = Inr (w\<lparr>m_value := m_data r ! ?p\<rparr>)"
    using get_uint32_update [OF get_uint32_index [OF assms(3)]] by simp
  from calls_propagate_ROM [OF assms(1,2,3), of ?n cout] obtain rDataN where
    "calls propagate ?n (Node_ROM r) (rData, cout)
       = Inr (Node_ROM (r\<lparr>m_pc := of_nat ((?p + ?n) mod ?n)\<rparr>), rDataN, cout)"
    by blast
  then have four: "calls propagate ?n (Node_ROM r) (rData, cout) = Inr (Node_ROM r, rDataN, cout)"
    by (simp add: pm del: calls.simps)
  from calls_propagate_ROM [OF assms(1,2,3), of "Suc ?n" cout] obtain rDataN1 where
    r5: "calls propagate (Suc ?n) (Node_ROM r) (rData, cout)
       = Inr (Node_ROM (r\<lparr>m_pc := of_nat ((?p + Suc ?n) mod ?n)\<rparr>), rDataN1, cout)"
    and r6: "get_uint32 (ROM.m_output r) rDataN1
       = Inr (w\<lparr>m_value := m_data r ! ((?p + ?n) mod ?n)\<rparr>)"
    by auto
  have "(?p + Suc ?n) mod ?n = Suc ?p mod ?n"
    by (metis add_Suc_right add_Suc mod_add_self2)
  with r5 have five: "calls propagate (Suc ?n) (Node_ROM r) (rData, cout)
       = Inr (Node_ROM (r\<lparr>m_pc := of_nat (Suc ?p mod ?n)\<rparr>), rDataN1, cout)"
    by (simp del: calls.simps)
  from r6 have six: "get_uint32 (ROM.m_output r) rDataN1 = Inr (w\<lparr>m_value := m_data r ! ?p\<rparr>)"
    by (simp add: pm)
  from one two three four five six show ?thesis
    by blast
qed

theorem ROM_propagate_cycle_witness:
  "length (m_data (ROM_init romData\<lparr>ROM.m_output := \<lparr>m_parentID = 0, m_id = 1\<rparr>\<rparr>)) \<le> 2 ^ 32
   \<and> unat (m_pc (ROM_init romData\<lparr>ROM.m_output := \<lparr>m_parentID = 0, m_id = 1\<rparr>\<rparr>))
       < length (m_data (ROM_init romData\<lparr>ROM.m_output := \<lparr>m_parentID = 0, m_id = 1\<rparr>\<rparr>))
   \<and> get_uint32 (ROM.m_output (ROM_init romData\<lparr>ROM.m_output := \<lparr>m_parentID = 0, m_id = 1\<rparr>\<rparr>))
         \<lparr>m_edges = [None, Some (make_wire T_uint32)], m_nodes = [None]\<rparr>
       = Inr \<lparr>m_value = 0, m_in = nullNode_t, m_out = nullNode_t\<rparr>
   \<and> (\<exists>rDataN. calls propagate 16
          (Node_ROM (ROM_init romData\<lparr>ROM.m_output := \<lparr>m_parentID = 0, m_id = 1\<rparr>\<rparr>))
          (\<lparr>m_edges = [None, Some (make_wire T_uint32)], m_nodes = [None]\<rparr>, [])
        = Inr (Node_ROM (ROM_init romData\<lparr>ROM.m_output := \<lparr>m_parentID = 0, m_id = 1\<rparr>\<rparr>),
               rDataN, []))"
proof -
  let ?r = "ROM_init romData\<lparr>ROM.m_output := \<lparr>m_parentID = 0, m_id = 1\<rparr>\<rparr>"
  let ?d = "\<lparr>m_edges = [None, Some (make_wire T_uint32)], m_nodes = [None]\<rparr>"
  have len: "length (m_data ?r) = 16"
    by (simp add: ROM_init_def romData_def)
  have h1: "length (m_data ?r) \<le> 2 ^ 32"
    by (simp add: ROM_init_def romData_def)
  have h2: "unat (m_pc ?r) < length (m_data ?r)"
    by (simp add: ROM_init_def romData_def)
  have h3: "get_uint32 (ROM.m_output ?r) ?d = Inr \<lparr>m_value = 0, m_in = nullNode_t, m_out = nullNode_t\<rparr>"
    by (simp add: get_uint32_def at_vec_def)
  from ROM_propagate_cycle [OF h1 h2 h3, of "[]"] obtain rDataN where
    "calls propagate (length (m_data ?r)) (Node_ROM ?r) (?d, []) = Inr (Node_ROM ?r, rDataN, [])"
    by blast
  then have "\<exists>rDataN. calls propagate 16 (Node_ROM ?r) (?d, []) = Inr (Node_ROM ?r, rDataN, [])"
    unfolding len by (rule exI)
  with h1 h2 h3 show ?thesis
    by blast
qed

theorem ROM_propagate_wide_counterexample:
  "propagate
     (Node_ROM \<lparr>m_data = replicate 4294967297 0, m_pc = 4294967295,
        ROM.m_output = \<lparr>m_parentID = 0, m_id = 1\<rparr>\<rparr>)
     (\<lparr>m_edges = [None, Some (make_wire T_uint32)], m_nodes = [None]\<rparr>, [])
   = Inr (Node_ROM \<lparr>m_data = replicate 4294967297 0, m_pc = 0,
            ROM.m_output = \<lparr>m_parentID = 0, m_id = 1\<rparr>\<rparr>,
          \<lparr>m_edges = [None, Some (make_wire T_uint32)], m_nodes = [None]\<rparr>, [])
   \<and> unat (4294967295 :: uint32_t) < length (replicate 4294967297 (0 :: uint32_t))
   \<and> (unat (4294967295 :: uint32_t) + 1) mod length (replicate 4294967297 (0 :: uint32_t))
       \<noteq> unat (0 :: uint32_t)"
  by (simp add: assign_uint32_def get_uint32_def at_vec_def)


subsection \<open>Unattached terminals\<close>

lemma get_bool_null: "m_edges rData = None # es \<Longrightarrow> m_id t = nullEdge_t \<Longrightarrow> get_bool t rData = Inl null_deref"
  by (simp add: get_bool_def at_vec_def nullEdge_t_def)

lemma get_uint32_null: "m_edges rData = None # es \<Longrightarrow> m_id t = nullEdge_t \<Longrightarrow> get_uint32 t rData = Inl null_deref"
  by (simp add: get_uint32_def at_vec_def nullEdge_t_def)

text \<open>
  C4. In an arena whose \<open>m_edges\<close> begins with the null pointer, as the constructor
  leaves it, a phase that resolves a terminal whose \<open>m_id\<close> is \<open>nullEdge_t\<close> does not
  return: \<open>propagate\<close> of a Constant, an ANDGate or a ROM (counter within the table) with
  \<open>m_output\<close> unattached, \<open>process\<close> of an ANDGate with \<open>m_inA\<close> unattached and \<open>process\<close>
  of a Printer with \<open>m_input\<close> unattached end in the dereference of that null pointer,
  which is no checked error. The phases that resolve no terminal, \<open>process\<close> of a Constant
  or a ROM and \<open>propagate\<close> of a Printer, return with nothing changed.
\<close>

theorem unattached_terminal_null_deref:
  assumes "m_edges rData = None # es"
  shows "(m_id (Constant.m_output c) = nullEdge_t \<longrightarrow>
            propagate (Node_Constant c) (rData, cout) = Inl null_deref)
       \<and> (m_id (ANDGate.m_output g) = nullEdge_t \<longrightarrow>
            propagate (Node_ANDGate g) (rData, cout) = Inl null_deref)
       \<and> (m_id (m_inA g) = nullEdge_t \<longrightarrow>
            process (Node_ANDGate g) (rData, cout) = Inl null_deref)
       \<and> (m_id (ROM.m_output r) = nullEdge_t \<and> unat (m_pc r) < length (m_data r) \<longrightarrow>
            propagate (Node_ROM r) (rData, cout) = Inl null_deref)
       \<and> (m_id (m_input p) = nullEdge_t \<longrightarrow>
            process (Node_Printer_bool p) (rData, cout) = Inl null_deref
          \<and> process (Node_Printer_uint32 p) (rData, cout) = Inl null_deref)
       \<and> \<not> checked null_deref
       \<and> process (Node_Constant c) (rData, cout) = Inr (Node_Constant c, rData, cout)
       \<and> process (Node_ROM r) (rData, cout) = Inr (Node_ROM r, rData, cout)
       \<and> propagate (Node_Printer_bool p) (rData, cout) = Inr (Node_Printer_bool p, rData, cout)
       \<and> propagate (Node_Printer_uint32 p) (rData, cout) = Inr (Node_Printer_uint32 p, rData, cout)"
  using assms
  by (simp add: get_bool_null get_uint32_null assign_bool_def assign_uint32_def)

theorem unattached_terminal_null_deref_witness:
  "m_edges CircuitData_init = None # []
   \<and> m_id (Constant.m_output Constant_init) = nullEdge_t
   \<and> m_id (ANDGate.m_output ANDGate_init) = nullEdge_t
   \<and> m_id (m_inA ANDGate_init) = nullEdge_t
   \<and> m_id (ROM.m_output (ROM_init romData)) = nullEdge_t
   \<and> unat (m_pc (ROM_init romData)) < length (m_data (ROM_init romData))
   \<and> m_id (m_input Printer_init) = nullEdge_t
   \<and> propagate (Node_Constant Constant_init) (CircuitData_init, []) = Inl null_deref
   \<and> propagate (Node_ANDGate ANDGate_init) (CircuitData_init, []) = Inl null_deref
   \<and> process (Node_ANDGate ANDGate_init) (CircuitData_init, []) = Inl null_deref
   \<and> propagate (Node_ROM (ROM_init romData)) (CircuitData_init, []) = Inl null_deref
   \<and> process (Node_Printer_uint32 Printer_init) (CircuitData_init, []) = Inl null_deref"
proof -
  have e: "m_edges CircuitData_init = None # []"
    by (simp add: CircuitData_init_def)
  have h: "m_id (Constant.m_output Constant_init) = nullEdge_t"
    "m_id (ANDGate.m_output ANDGate_init) = nullEdge_t"
    "m_id (m_inA ANDGate_init) = nullEdge_t"
    "m_id (ROM.m_output (ROM_init romData)) = nullEdge_t"
    "unat (m_pc (ROM_init romData)) < length (m_data (ROM_init romData))"
    "m_id (m_input Printer_init) = nullEdge_t"
    by (simp_all add: Constant_init_def ANDGate_init_def ROM_init_def Printer_init_def
        NodeTerminal_init_def romData_def)
  from unattached_terminal_null_deref [OF e, of Constant_init "[]" ANDGate_init
      "ROM_init romData" Printer_init] h
  have "propagate (Node_Constant Constant_init) (CircuitData_init, []) = Inl null_deref"
    "propagate (Node_ANDGate ANDGate_init) (CircuitData_init, []) = Inl null_deref"
    "process (Node_ANDGate ANDGate_init) (CircuitData_init, []) = Inl null_deref"
    "propagate (Node_ROM (ROM_init romData)) (CircuitData_init, []) = Inl null_deref"
    "process (Node_Printer_uint32 Printer_init) (CircuitData_init, []) = Inl null_deref"
    by blast+
  with e h show ?thesis
    by blast
qed

theorem unattached_terminal_counterexample:
  "m_id (ROM.m_output (ROM_init romData)) = nullEdge_t
   \<and> process (Node_ROM (ROM_init romData)) (CircuitData_init, [])
       = Inr (Node_ROM (ROM_init romData), CircuitData_init, [])
   \<and> m_id (m_inB (ANDGate_init\<lparr>m_inA := \<lparr>m_parentID = 0, m_id = 1\<rparr>\<rparr>)) = nullEdge_t
   \<and> process (Node_ANDGate (ANDGate_init\<lparr>m_inA := \<lparr>m_parentID = 0, m_id = 1\<rparr>\<rparr>))
         (\<lparr>m_edges = [None, Some (make_wire T_bool)], m_nodes = [None]\<rparr>, [])
       = Inr (Node_ANDGate (ANDGate_init\<lparr>m_inA := \<lparr>m_parentID = 0, m_id = 1\<rparr>\<rparr>),
              \<lparr>m_edges = [None, Some (make_wire T_bool)], m_nodes = [None]\<rparr>, [])
   \<and> propagate (Node_ROM (ROM_init romData)) (CircuitData_init, []) = Inl null_deref
   \<and> \<not> checked null_deref
   \<and> process (Node_Printer_uint32 \<lparr>m_input = \<lparr>m_parentID = 0, m_id = 5\<rparr>\<rparr>) (CircuitData_init, [])
       = Inl out_of_range"
  by (simp add: ROM_init_def ANDGate_init_def NodeTerminal_init_def CircuitData_init_def
      romData_def get_bool_def get_uint32_def assign_uint32_def at_vec_def nullEdge_t_def)

subsection \<open>Lookup\<close>

text \<open>
  C9. \<open>get\<close> and the two terminal resolutions throw \<open>out_of_range\<close>, a checked error, for
  every identity at or beyond the size of the vector. Below the size nothing is checked:
  a node resolved at its own type is returned, at any other type the cast is undefined;
  a wire resolved at its own type is returned, at the other type the cast is undefined;
  the null pointer, found at identity 0, is returned as it is by \<open>get\<close> and dereferenced
  by a terminal.
\<close>

theorem lookup_checks_range_only:
  "(length (m_nodes rData) \<le> unat i \<longrightarrow> get k rData i = Inl out_of_range)
   \<and> (length (m_edges rData) \<le> unat (m_id t) \<longrightarrow>
        get_bool t rData = Inl out_of_range \<and> get_uint32 t rData = Inl out_of_range)
   \<and> checked out_of_range
   \<and> (unat j < length (m_nodes rData) \<and> m_nodes rData ! unat j = Some n \<longrightarrow>
        get (node_type_of n) rData j = Inr (Some n)
        \<and> (k \<noteq> node_type_of n \<longrightarrow> get k rData j = Inl bad_cast))
   \<and> (unat z < length (m_nodes rData) \<and> m_nodes rData ! unat z = None \<longrightarrow>
        get k rData z = Inr None)
   \<and> (unat (m_id u) < length (m_edges rData) \<and> m_edges rData ! unat (m_id u) = Some c \<longrightarrow>
        (case c of
           WireNode_bool w \<Rightarrow> get_bool u rData = Inr w \<and> get_uint32 u rData = Inl bad_cast
         | WireNode_uint32 w \<Rightarrow> get_uint32 u rData = Inr w \<and> get_bool u rData = Inl bad_cast))
   \<and> (unat (m_id v) < length (m_edges rData) \<and> m_edges rData ! unat (m_id v) = None \<longrightarrow>
        get_bool v rData = Inl null_deref \<and> get_uint32 v rData = Inl null_deref)
   \<and> \<not> checked bad_cast \<and> \<not> checked null_deref"
  by (simp add: get_def get_bool_def get_uint32_def at_vec_def split: Connection.splits)

theorem lookup_checks_range_only_witness:
  "length (m_nodes (main_data 0 0)) \<le> unat (3 :: nodeID_t)
   \<and> get (K_ROM 16) (main_data 0 0) 3 = Inl out_of_range
   \<and> length (m_edges (main_data 0 0)) \<le> unat (m_id \<lparr>m_parentID = 0, m_id = 2\<rparr>)
   \<and> get_uint32 \<lparr>m_parentID = 0, m_id = 2\<rparr> (main_data 0 0) = Inl out_of_range
   \<and> unat (1 :: nodeID_t) < length (m_nodes (main_data 0 0))
   \<and> m_nodes (main_data 0 0) ! unat (1 :: nodeID_t)
       = Some (Node_Printer_uint32 \<lparr>m_input = \<lparr>m_parentID = 0, m_id = 1\<rparr>\<rparr>)
   \<and> get (K_Printer T_uint32) (main_data 0 0) 1
       = Inr (Some (Node_Printer_uint32 \<lparr>m_input = \<lparr>m_parentID = 0, m_id = 1\<rparr>\<rparr>))
   \<and> K_ROM 16 \<noteq> node_type_of (Node_Printer_uint32 \<lparr>m_input = \<lparr>m_parentID = 0, m_id = 1\<rparr>\<rparr>)
   \<and> get (K_ROM 16) (main_data 0 0) 1 = Inl bad_cast
   \<and> unat (0 :: nodeID_t) < length (m_nodes (main_data 0 0))
   \<and> m_nodes (main_data 0 0) ! unat (0 :: nodeID_t) = None
   \<and> get (K_ROM 16) (main_data 0 0) 0 = Inr None
   \<and> unat (m_id \<lparr>m_parentID = 0, m_id = 1\<rparr>) < length (m_edges (main_data 0 0))
   \<and> m_edges (main_data 0 0) ! unat (m_id \<lparr>m_parentID = 0, m_id = 1\<rparr>)
       = Some (WireNode_uint32 \<lparr>m_value = 0, m_in = 0, m_out = 0\<rparr>)
   \<and> get_uint32 \<lparr>m_parentID = 0, m_id = 1\<rparr> (main_data 0 0) = Inr \<lparr>m_value = 0, m_in = 0, m_out = 0\<rparr>
   \<and> get_bool \<lparr>m_parentID = 0, m_id = 1\<rparr> (main_data 0 0) = Inl bad_cast
   \<and> unat (m_id \<lparr>m_parentID = 0, m_id = 0\<rparr>) < length (m_edges (main_data 0 0))
   \<and> m_edges (main_data 0 0) ! unat (m_id \<lparr>m_parentID = 0, m_id = 0\<rparr>) = None
   \<and> get_uint32 \<lparr>m_parentID = 0, m_id = 0\<rparr> (main_data 0 0) = Inl null_deref"
proof -
  let ?d = "main_data 0 0"
  let ?p = "Node_Printer_uint32 \<lparr>m_input = \<lparr>m_parentID = 0, m_id = 1\<rparr>\<rparr>"
  let ?w = "\<lparr>m_value = 0 :: uint32_t, m_in = 0, m_out = 0\<rparr>"
  have h1: "length (m_nodes ?d) \<le> unat (3 :: nodeID_t)"
    and h2: "length (m_edges ?d) \<le> unat (m_id \<lparr>m_parentID = 0, m_id = 2\<rparr>)"
    and h3: "unat (1 :: nodeID_t) < length (m_nodes ?d)"
    and h4: "m_nodes ?d ! unat (1 :: nodeID_t) = Some ?p"
    and h5: "K_ROM 16 \<noteq> node_type_of ?p"
    and h6: "unat (0 :: nodeID_t) < length (m_nodes ?d)"
    and h7: "m_nodes ?d ! unat (0 :: nodeID_t) = None"
    and h8: "unat (m_id \<lparr>m_parentID = 0, m_id = 1\<rparr>) < length (m_edges ?d)"
    and h9: "m_edges ?d ! unat (m_id \<lparr>m_parentID = 0, m_id = 1\<rparr>) = Some (WireNode_uint32 ?w)"
    and h10: "unat (m_id \<lparr>m_parentID = 0, m_id = 0\<rparr>) < length (m_edges ?d)"
    and h11: "m_edges ?d ! unat (m_id \<lparr>m_parentID = 0, m_id = 0\<rparr>) = None"
    by (simp_all add: main_data_def)
  note t = lookup_checks_range_only [of ?d 3 "K_ROM 16" "\<lparr>m_parentID = 0, m_id = 2\<rparr>" 1 ?p 0
      "\<lparr>m_parentID = 0, m_id = 1\<rparr>" "WireNode_uint32 ?w" "\<lparr>m_parentID = 0, m_id = 0\<rparr>"]
  have c1: "get (K_ROM 16) ?d 3 = Inl out_of_range"
    using t h1 by blast
  have c2: "get_uint32 \<lparr>m_parentID = 0, m_id = 2\<rparr> ?d = Inl out_of_range"
    using t h2 by blast
  have c3: "get (K_Printer T_uint32) ?d 1 = Inr (Some ?p)"
    using t h3 h4 by simp
  have c4: "get (K_ROM 16) ?d 1 = Inl bad_cast"
    using t h3 h4 h5 by blast
  have c5: "get (K_ROM 16) ?d 0 = Inr None"
    using t h6 h7 by blast
  have c6: "get_uint32 \<lparr>m_parentID = 0, m_id = 1\<rparr> ?d = Inr ?w"
    "get_bool \<lparr>m_parentID = 0, m_id = 1\<rparr> ?d = Inl bad_cast"
    using t h8 h9 by simp_all
  have c7: "get_uint32 \<lparr>m_parentID = 0, m_id = 0\<rparr> ?d = Inl null_deref"
    using t h10 h11 by blast
  show ?thesis
    by (intro conjI h1 h2 h3 h4 h5 h6 h7 h8 h9 h10 h11 c1 c2 c3 c4 c5 c6 c7)
qed

theorem lookup_unchecked_cast_counterexample:
  "unat (1 :: nodeID_t) < length (m_nodes (main_data 0 0))
   \<and> m_nodes (main_data 0 0) ! unat (1 :: nodeID_t)
       = Some (Node_Printer_uint32 \<lparr>m_input = \<lparr>m_parentID = 0, m_id = 1\<rparr>\<rparr>)
   \<and> get (K_ROM 16) (main_data 0 0) 1 = Inl bad_cast
   \<and> \<not> checked bad_cast
   \<and> m_nodes (main_data 0 0) ! unat (0 :: nodeID_t) = None
   \<and> get (K_ROM 16) (main_data 0 0) 0 = Inr None
   \<and> get_uint32 \<lparr>m_parentID = 0, m_id = 0\<rparr> (main_data 0 0) = Inl null_deref
   \<and> \<not> checked null_deref"
  by (simp add: main_data_def get_def get_uint32_def at_vec_def)


subsection \<open>The tick\<close>

lemma reads_edges: "m_edges d' = m_edges d \<Longrightarrow> reads d' x = reads d x"
  by (cases "(d, x)" rule: reads.cases) (simp_all add: get_bool_def get_uint32_def)

lemma latch_edges: "m_edges d' = m_edges d \<Longrightarrow> latch d' n = latch d n"
  by (cases n) (simp_all add: wire_bool_def get_bool_def)

lemma process_result:
  "process n (d, c) = Inr (n', d', c') \<Longrightarrow> d' = d \<and> c' = c @ reads d (Some n) \<and> n' = latch d n"
  by (cases n) (auto simp: wire_bool_def split: sum.splits if_splits)

lemma run_node_process:
  assumes "run_node process i (d, c) = Inr (d', c')"
  shows "m_edges d' = m_edges d
       \<and> m_nodes d' = (m_nodes d)[i := map_option (latch d) (m_nodes d ! i)]
       \<and> c' = c @ reads d (m_nodes d ! i)"
proof (cases "m_nodes d ! i")
  case None
  have "(m_nodes d)[i := m_nodes d ! i] = m_nodes d"
    by (rule list_update_id)
  with None have "(m_nodes d)[i := None] = m_nodes d"
    by simp
  with assms None show ?thesis
    by (simp add: run_node_def)
next
  case (Some n)
  show ?thesis
  proof (cases "process n (d, c)")
    case (Inl e)
    with assms Some show ?thesis
      by (simp add: run_node_def)
  next
    case (Inr x)
    obtain n' d1 c1 where x: "x = (n', d1, c1)"
      by (cases x) auto
    from process_result [OF Inr [unfolded x]]
    have "d1 = d" "c1 = c @ reads d (Some n)" "n' = latch d n"
      by simp_all
    with assms Some Inr x show ?thesis
      by (auto simp: run_node_def)
  qed
qed


lemma for_each_Cons_Inr:
  assumes "for_each body (j # js) s = Inr s'"
  obtains s1 where "body j s = Inr s1" and "for_each body js s1 = Inr s'"
  using assms by (cases "body j s") simp_all

lemma for_each_process:
  assumes "for_each (run_node process) js (d, c) = Inr (d', c')" and "distinct js"
  shows "m_edges d' = m_edges d
       \<and> length (m_nodes d') = length (m_nodes d)
       \<and> (\<forall>i<length (m_nodes d). m_nodes d' ! i =
            (if i \<in> set js then map_option (latch d) (m_nodes d ! i) else m_nodes d ! i))
       \<and> c' = c @ concat (map (\<lambda>j. reads d (m_nodes d ! j)) js)"
  using assms
proof (induction js arbitrary: d c)
  case Nil
  then show ?case by simp
next
  case (Cons j js)
  from Cons.prems(1) obtain s1 where
    first: "run_node process j (d, c) = Inr s1" and rest: "for_each (run_node process) js s1 = Inr (d', c')"
    by (rule for_each_Cons_Inr)
  obtain d1 c1 where s1: "s1 = (d1, c1)"
    by (cases s1) auto
  from run_node_process [OF first [unfolded s1]]
  have e1: "m_edges d1 = m_edges d"
    and n1: "m_nodes d1 = (m_nodes d)[j := map_option (latch d) (m_nodes d ! j)]"
    and c1: "c1 = c @ reads d (m_nodes d ! j)"
    by simp_all
  from Cons.prems(2) have dj: "j \<notin> set js" and djs: "distinct js"
    by simp_all
  from Cons.IH [OF rest [unfolded s1] djs]
  have e': "m_edges d' = m_edges d1"
    and l': "length (m_nodes d') = length (m_nodes d1)"
    and n': "\<forall>i<length (m_nodes d1). m_nodes d' ! i =
            (if i \<in> set js then map_option (latch d1) (m_nodes d1 ! i) else m_nodes d1 ! i)"
    and c': "c' = c1 @ concat (map (\<lambda>k. reads d1 (m_nodes d1 ! k)) js)"
    by simp_all
  have same: "\<And>k. k \<in> set js \<Longrightarrow> m_nodes d1 ! k = m_nodes d ! k"
  proof -
    fix k assume "k \<in> set js"
    with dj have "j \<noteq> k" by auto
    then show "m_nodes d1 ! k = m_nodes d ! k" by (simp add: n1)
  qed
  have "map (\<lambda>k. reads d1 (m_nodes d1 ! k)) js = map (\<lambda>k. reads d (m_nodes d ! k)) js"
    by (rule map_cong [OF refl]) (simp add: same reads_edges [OF e1])
  with c' c1 have out: "c' = c @ concat (map (\<lambda>k. reads d (m_nodes d ! k)) (j # js))"
    by simp
  have nodes: "\<forall>i<length (m_nodes d). m_nodes d' ! i =
      (if i \<in> set (j # js) then map_option (latch d) (m_nodes d ! i) else m_nodes d ! i)"
  proof (intro allI impI)
    fix i assume i: "i < length (m_nodes d)"
    then have "i < length (m_nodes d1)" by (simp add: n1)
    with n' have a: "m_nodes d' ! i =
        (if i \<in> set js then map_option (latch d1) (m_nodes d1 ! i) else m_nodes d1 ! i)"
      by blast
    have b: "latch d1 = latch d"
      by (rule ext) (rule latch_edges [OF e1])
    show "m_nodes d' ! i =
      (if i \<in> set (j # js) then map_option (latch d) (m_nodes d ! i) else m_nodes d ! i)"
    proof (cases "i = j")
      case True
      with dj i a show ?thesis by (simp add: n1)
    next
      case False
      with a show ?thesis by (simp add: b n1)
    qed
  qed
  from e' e1 l' n1 out nodes show ?case
    by simp
qed

lemma concat_map_nth: "concat (map (\<lambda>j. f (xs ! j)) [0..<length xs]) = concat (map f xs)"
proof -
  have "map (\<lambda>j. f (xs ! j)) [0..<length xs] = map f (map (\<lambda>j. xs ! j) [0..<length xs])"
    by simp
  also have "\<dots> = map f xs"
    by (simp only: map_nth)
  finally show ?thesis by simp
qed

lemma process_all_result:
  assumes "process_all (d, c) = Inr (d', c')"
  shows "m_edges d' = m_edges d
       \<and> m_nodes d' = map (map_option (latch d)) (m_nodes d)
       \<and> c' = c @ concat (map (reads d) (m_nodes d))"
proof -
  from assms have "for_each (run_node process) [0..<length (m_nodes d)] (d, c) = Inr (d', c')"
    by (simp add: process_all_def)
  from for_each_process [OF this distinct_upt]
  have e: "m_edges d' = m_edges d"
    and l: "length (m_nodes d') = length (m_nodes d)"
    and n: "\<forall>i<length (m_nodes d). m_nodes d' ! i = map_option (latch d) (m_nodes d ! i)"
    and c: "c' = c @ concat (map (\<lambda>j. reads d (m_nodes d ! j)) [0..<length (m_nodes d)])"
    by simp_all
  have "m_nodes d' = map (map_option (latch d)) (m_nodes d)"
    using l n by (intro nth_equalityI) simp_all
  with e c show ?thesis
    by (simp add: concat_map_nth)
qed

lemma propagate_result:
  "propagate n (d, c) = Inr (n', d', c') \<Longrightarrow>
     c' = c \<and> m_nodes d' = m_nodes d \<and> (\<forall>g. n = Node_ANDGate g \<longrightarrow> n' = n)"
  by (cases n) (auto simp: assign_bool_def assign_uint32_def split: sum.splits if_splits)

lemma gates_kept_refl: "gates_kept s s"
  by (simp add: gates_kept_def)

lemma gates_kept_trans: "gates_kept a b \<Longrightarrow> gates_kept b c \<Longrightarrow> gates_kept a c"
  by (simp add: gates_kept_def)

lemma run_node_propagate_kept:
  assumes "run_node propagate i s = Inr s'"
  shows "gates_kept s s'"
proof (cases "m_nodes (fst s) ! i")
  case None
  with assms show ?thesis
    by (simp add: run_node_def gates_kept_refl)
next
  case (Some n)
  obtain d c where s: "s = (d, c)" by (cases s) auto
  show ?thesis
  proof (cases "propagate n (d, c)")
    case (Inl e)
    with assms Some s show ?thesis
      by (simp add: run_node_def)
  next
    case (Inr x)
    obtain n' d1 c1 where x: "x = (n', d1, c1)"
      by (cases x) auto
    from propagate_result [OF Inr [unfolded x]]
    have c1: "c1 = c" and n1: "m_nodes d1 = m_nodes d" and g: "\<forall>g. n = Node_ANDGate g \<longrightarrow> n' = n"
      by simp_all
    from assms Some s Inr x have s': "s' = (d1\<lparr>m_nodes := (m_nodes d1)[i := Some n']\<rparr>, c1)"
      by (simp add: run_node_def)
    have "m_nodes (fst s') ! k = Some (Node_ANDGate h)"
      if k: "k < length (m_nodes d)" and h: "m_nodes d ! k = Some (Node_ANDGate h)" for k h
    proof (cases "k = i")
      case True
      with h Some s have "n = Node_ANDGate h" by simp
      with g have "n' = Node_ANDGate h" by simp
      with True k show ?thesis by (simp add: s' n1)
    next
      case False
      with h show ?thesis by (simp add: s' n1)
    qed
    then show ?thesis
      unfolding gates_kept_def by (simp add: s s' c1 n1)
  qed
qed

lemma for_each_kept:
  "for_each (run_node propagate) js s = Inr s' \<Longrightarrow> gates_kept s s'"
proof (induction js arbitrary: s)
  case Nil
  then show ?case by (simp add: gates_kept_refl)
next
  case (Cons j js)
  from Cons.prems obtain s1 where
    "run_node propagate j s = Inr s1" and "for_each (run_node propagate) js s1 = Inr s'"
    by (rule for_each_Cons_Inr)
  then show ?case
    by (blast intro: gates_kept_trans run_node_propagate_kept Cons.IH)
qed

text \<open>
  C1. A tick that returns has run \<open>process_all\<close> to its end, with no wire changed, before
  \<open>propagate_all\<close> starts. What the consumers hold after the tick is what the wires held
  before it: the lines written are the printers' input wires as they were before the tick,
  in arena order, and every AND gate has latched the conjunction of its input wires as they
  were before the tick, whatever the propagate phase wrote to them since. No assumption is
  made on the topology: a gate may read the wire it writes.
\<close>

theorem tick_one_tick_delay:
  assumes "tick (rData, cout) = Inr (rData', cout')"
  shows "\<exists>rData1 cout1.
           process_all (rData, cout) = Inr (rData1, cout1)
         \<and> m_edges rData1 = m_edges rData
         \<and> propagate_all (rData1, cout1) = Inr (rData', cout')
         \<and> cout' = cout @ concat (map (reads rData) (m_nodes rData))
         \<and> length (m_nodes rData') = length (m_nodes rData)
         \<and> (\<forall>i g. i < length (m_nodes rData) \<and> m_nodes rData ! i = Some (Node_ANDGate g)
              \<longrightarrow> m_nodes rData' ! i = Some (latch rData (Node_ANDGate g)))"
proof -
  from assms obtain s1 where p: "process_all (rData, cout) = Inr s1"
    and q: "propagate_all s1 = Inr (rData', cout')"
    by (cases "process_all (rData, cout)") (simp_all add: tick_def)
  obtain rData1 cout1 where s1: "s1 = (rData1, cout1)"
    by (cases s1) auto
  from process_all_result [OF p [unfolded s1]]
  have e: "m_edges rData1 = m_edges rData"
    and n: "m_nodes rData1 = map (map_option (latch rData)) (m_nodes rData)"
    and c: "cout1 = cout @ concat (map (reads rData) (m_nodes rData))"
    by simp_all
  from q have "gates_kept (rData1, cout1) (rData', cout')"
    unfolding propagate_all_def s1 by (rule for_each_kept)
  then have c': "cout' = cout1" and l: "length (m_nodes rData') = length (m_nodes rData1)"
    and k: "\<forall>i g. i < length (m_nodes rData1) \<and> m_nodes rData1 ! i = Some (Node_ANDGate g)
          \<longrightarrow> m_nodes rData' ! i = Some (Node_ANDGate g)"
    by (simp_all add: gates_kept_def)
  have gates: "\<forall>i g. i < length (m_nodes rData) \<and> m_nodes rData ! i = Some (Node_ANDGate g)
      \<longrightarrow> m_nodes rData' ! i = Some (latch rData (Node_ANDGate g))"
  proof (intro allI impI)
    fix i g assume a: "i < length (m_nodes rData) \<and> m_nodes rData ! i = Some (Node_ANDGate g)"
    then have "i < length (m_nodes rData1)"
      and "m_nodes rData1 ! i = Some (latch rData (Node_ANDGate g))"
      by (simp_all add: n)
    with k show "m_nodes rData' ! i = Some (latch rData (Node_ANDGate g))"
      by simp
  qed
  from p q e c c' l n gates show ?thesis
    unfolding s1 by simp
qed

lemma tick_feedback_data:
  "tick (feedback_data v1 v2 l, cout) = Inr (feedback_data (v1 \<and> v2) False (v1 \<and> v2), cout)"
  by (cases v1; cases v2)
    (simp_all add: tick_def process_all_def propagate_all_def feedback_data_def upt_3 run_node_def
      get_bool_def assign_bool_def at_vec_def)

theorem tick_one_tick_delay_witness:
  "tick (feedback_data True True False, []) = Inr (feedback_data True False True, [])
   \<and> m_nodes (feedback_data True False True) ! 1
       = Some (latch (feedback_data True True False)
           (Node_ANDGate \<lparr>m_inA = \<lparr>m_parentID = 0, m_id = 1\<rparr>,
              m_inB = \<lparr>m_parentID = 0, m_id = 2\<rparr>,
              ANDGate.m_output = \<lparr>m_parentID = 0, m_id = 1\<rparr>, m_outVal = False\<rparr>))
   \<and> wire_bool (feedback_data True True False) \<lparr>m_parentID = 0, m_id = 2\<rparr> = Some True
   \<and> wire_bool (feedback_data True False True) \<lparr>m_parentID = 0, m_id = 2\<rparr> = Some False"
proof -
  let ?g = "\<lparr>m_inA = \<lparr>m_parentID = 0, m_id = 1\<rparr>, m_inB = \<lparr>m_parentID = 0, m_id = 2\<rparr>,
              ANDGate.m_output = \<lparr>m_parentID = 0, m_id = 1\<rparr>, m_outVal = False\<rparr>"
  have t: "tick (feedback_data True True False, []) = Inr (feedback_data True False True, [])"
    by (simp add: tick_feedback_data)
  have i: "1 < length (m_nodes (feedback_data True True False))
      \<and> m_nodes (feedback_data True True False) ! 1 = Some (Node_ANDGate ?g)"
    by (simp add: feedback_data_def)
  from tick_one_tick_delay [OF t] i
  have n: "m_nodes (feedback_data True False True) ! 1
      = Some (latch (feedback_data True True False) (Node_ANDGate ?g))"
    by blast
  have w: "wire_bool (feedback_data True True False) \<lparr>m_parentID = 0, m_id = 2\<rparr> = Some True"
    "wire_bool (feedback_data True False True) \<lparr>m_parentID = 0, m_id = 2\<rparr> = Some False"
    by (simp_all add: wire_bool_def get_bool_def at_vec_def feedback_data_def)
  show ?thesis
    by (intro conjI t n w)
qed


subsection \<open>The arena only grows\<close>

lemma grows_refl: "grows d d"
  by (simp add: grows_def)

lemma grows_trans: "grows a b \<Longrightarrow> grows b c \<Longrightarrow> grows a c"
  by (auto simp: grows_def intro: prefix_order.trans)

lemma grows_eq: "node_types d' = node_types d \<Longrightarrow> wire_kinds d' = wire_kinds d \<Longrightarrow> grows d d'"
  by (simp add: grows_def)

lemma map_update_same:
  assumes "f y = f (xs ! i)"
  shows "map f (xs[i := y]) = map f xs"
proof (cases "i < length xs")
  case True
  with assms have "(map f xs)[i := f y] = (map f xs)[i := map f xs ! i]"
    by simp
  then show ?thesis
    by (simp add: map_update)
next
  case False
  then have "xs[i := y] = xs" by (intro list_update_beyond) simp
  then show ?thesis by simp
qed

lemma set_terminal_type: "node_type_of (set_terminal n m t) = node_type_of n"
  by (cases "(n, m, t)" rule: set_terminal.cases) simp_all

lemma latch_type: "node_type_of (latch d n) = node_type_of n"
  by (cases n) simp_all

lemma add_grows: "grows d (fst (add d n))"
  by (simp add: add_def grows_def node_types_def wire_kinds_def)

lemma store_terminal_types:
  "node_types (store_terminal d r t) = node_types d \<and> m_edges (store_terminal d r t) = m_edges d"
proof -
  obtain k i m where r: "r = (k, i, m)" by (cases r) auto
  show ?thesis
  proof (cases "m_nodes d ! unat i")
    case None
    then show ?thesis by (simp add: store_terminal_def r)
  next
    case (Some n)
    have "map (map_option node_type_of) ((m_nodes d)[unat i := Some (set_terminal n m t)])
        = map (map_option node_type_of) (m_nodes d)"
      by (rule map_update_same) (simp add: Some set_terminal_type)
    with Some show ?thesis
      by (simp add: store_terminal_def r node_types_def)
  qed
qed

lemma connect_at_result:
  assumes "connect_at d ra rb = Inr d'"
  shows "node_types d' = node_types d
       \<and> (\<exists>ty i j. m_edges d' = m_edges d @ [Some (set_ends (make_wire ty) i j)])"
proof -
  from assms obtain ty a where ra: "deref_terminal d ra = Inr (ty, a)"
    by (cases "deref_terminal d ra") (auto simp: connect_at_def)
  with assms obtain b where rb: "deref_terminal d rb = Inr (ty, b)"
    by (cases "deref_terminal d rb") (auto simp: connect_at_def split: if_splits)
  let ?d = "d\<lparr>m_edges := m_edges d @ [Some (set_ends (make_wire ty) (m_parentID a) (m_parentID b))]\<rparr>"
  let ?a = "a\<lparr>m_id := of_nat (length (m_edges d))\<rparr>"
  let ?b = "b\<lparr>m_id := of_nat (length (m_edges d))\<rparr>"
  from assms ra rb have d': "d' = store_terminal (store_terminal ?d ra ?a) rb ?b"
    by (auto simp: connect_at_def connect_eq)
  have "node_types ?d = node_types d"
    by (simp add: node_types_def)
  moreover have "m_edges ?d = m_edges d @ [Some (set_ends (make_wire ty) (m_parentID a) (m_parentID b))]"
    by simp
  ultimately show ?thesis
    unfolding d' store_terminal_types [THEN conjunct1] store_terminal_types [THEN conjunct2]
    by blast
qed

lemma connect_at_grows: "connect_at d ra rb = Inr d' \<Longrightarrow> grows d d'"
  by (drule connect_at_result) (auto simp: grows_def wire_kinds_def)

lemma process_all_grows:
  assumes "process_all s = Inr s'"
  shows "grows (fst s) (fst s')"
proof -
  obtain d c d' c' where s: "s = (d, c)" "s' = (d', c')"
    by (cases s; cases s') auto
  from process_all_result [OF assms [unfolded s]]
  have "m_edges d' = m_edges d" and "m_nodes d' = map (map_option (latch d)) (m_nodes d)"
    by simp_all
  then have "node_types d' = node_types d" and "wire_kinds d' = wire_kinds d"
    by (simp_all add: node_types_def wire_kinds_def option.map_comp comp_def latch_type)
  then show ?thesis
    by (simp add: s grows_eq)
qed

lemma get_bool_Inr:
  "get_bool t d = Inr w \<Longrightarrow>
     unat (m_id t) < length (m_edges d) \<and> m_edges d ! unat (m_id t) = Some (WireNode_bool w)"
  by (auto simp: get_bool_def at_vec_def split: if_splits option.splits Connection.splits)

lemma get_uint32_Inr:
  "get_uint32 t d = Inr w \<Longrightarrow>
     unat (m_id t) < length (m_edges d) \<and> m_edges d ! unat (m_id t) = Some (WireNode_uint32 w)"
  by (auto simp: get_uint32_def at_vec_def split: if_splits option.splits Connection.splits)

lemma assign_bool_kinds:
  assumes "assign_bool t d x = Inr d'"
  shows "wire_kinds d' = wire_kinds d \<and> m_nodes d' = m_nodes d"
proof -
  from assms obtain w where w: "get_bool t d = Inr w"
    and d': "d' = d\<lparr>m_edges := (m_edges d)[unat (m_id t) := Some (WireNode_bool (w\<lparr>m_value := x\<rparr>))]\<rparr>"
    by (auto simp: assign_bool_def split: sum.splits)
  have "map (map_option wire_kind) ((m_edges d)[unat (m_id t) := Some (WireNode_bool (w\<lparr>m_value := x\<rparr>))])
      = map (map_option wire_kind) (m_edges d)"
    by (rule map_update_same) (simp add: get_bool_Inr [OF w])
  then show ?thesis
    by (simp add: d' wire_kinds_def)
qed

lemma assign_uint32_kinds:
  assumes "assign_uint32 t d x = Inr d'"
  shows "wire_kinds d' = wire_kinds d \<and> m_nodes d' = m_nodes d"
proof -
  from assms obtain w where w: "get_uint32 t d = Inr w"
    and d': "d' = d\<lparr>m_edges := (m_edges d)[unat (m_id t) := Some (WireNode_uint32 (w\<lparr>m_value := x\<rparr>))]\<rparr>"
    by (auto simp: assign_uint32_def split: sum.splits)
  have "map (map_option wire_kind) ((m_edges d)[unat (m_id t) := Some (WireNode_uint32 (w\<lparr>m_value := x\<rparr>))])
      = map (map_option wire_kind) (m_edges d)"
    by (rule map_update_same) (simp add: get_uint32_Inr [OF w])
  then show ?thesis
    by (simp add: d' wire_kinds_def)
qed

lemma propagate_kinds:
  "propagate n (d, c) = Inr (n', d', c') \<Longrightarrow>
     node_type_of n' = node_type_of n \<and> m_nodes d' = m_nodes d \<and> wire_kinds d' = wire_kinds d"
  by (cases n) (auto split: sum.splits if_splits dest: assign_bool_kinds assign_uint32_kinds)

lemma run_node_propagate_kinds:
  assumes "run_node propagate i s = Inr s'"
  shows "node_types (fst s') = node_types (fst s) \<and> wire_kinds (fst s') = wire_kinds (fst s)"
proof (cases "m_nodes (fst s) ! i")
  case None
  with assms show ?thesis
    by (simp add: run_node_def)
next
  case (Some n)
  obtain d c where s: "s = (d, c)" by (cases s) auto
  show ?thesis
  proof (cases "propagate n (d, c)")
    case (Inl e)
    with assms Some s show ?thesis
      by (simp add: run_node_def)
  next
    case (Inr x)
    obtain n' d1 c1 where x: "x = (n', d1, c1)"
      by (cases x) auto
    from propagate_kinds [OF Inr [unfolded x]]
    have t: "node_type_of n' = node_type_of n" and n1: "m_nodes d1 = m_nodes d"
      and k: "wire_kinds d1 = wire_kinds d"
      by simp_all
    from assms Some s Inr x have s': "s' = (d1\<lparr>m_nodes := (m_nodes d1)[i := Some n']\<rparr>, c1)"
      by (simp add: run_node_def)
    have "map (map_option node_type_of) ((m_nodes d)[i := Some n'])
        = map (map_option node_type_of) (m_nodes d)"
      by (rule map_update_same) (use Some s t in simp)
    then show ?thesis
      using k by (simp add: s s' n1 node_types_def wire_kinds_def)
  qed
qed

lemma propagate_all_grows:
  assumes "propagate_all s = Inr s'"
  shows "grows (fst s) (fst s')"
proof -
  have "(node_types (fst s'), wire_kinds (fst s')) = (node_types (fst s), wire_kinds (fst s))"
    using assms unfolding propagate_all_def
    by (rule for_each_preserves [rotated]) (simp add: run_node_propagate_kinds)
  then show ?thesis
    by (simp add: grows_eq)
qed

lemma apply_op_grows:
  assumes "apply_op op s = Inr s'"
  shows "grows (fst s) (fst s')"
proof -
  obtain d c where s: "s = (d, c)" by (cases s) auto
  show ?thesis
  proof (cases op)
    case (Op_add n)
    with assms s show ?thesis by (auto simp: add_grows)
  next
    case (Op_connect ra rb)
    with assms s show ?thesis by (auto split: sum.splits dest: connect_at_grows)
  next
    case Op_process_all
    with assms show ?thesis by (simp add: process_all_grows)
  next
    case Op_propagate_all
    with assms show ?thesis by (simp add: propagate_all_grows)
  next
    case (Op_jmp i addr)
    with assms s obtain r where r: "m_nodes d ! unat i = Some (Node_ROM r)"
      and s': "s' = (d\<lparr>m_nodes := (m_nodes d)[unat i := Some (Node_ROM (jmp r addr))]\<rparr>, c)"
      by (auto simp: at_vec_def split: if_splits option.splits Node.splits)
    have "map (map_option node_type_of) ((m_nodes d)[unat i := Some (Node_ROM (jmp r addr))])
        = map (map_option node_type_of) (m_nodes d)"
      by (rule map_update_same) (simp add: r jmp_def)
    then show ?thesis
      by (simp add: s s' grows_eq node_types_def wire_kinds_def)
  qed
qed

lemma run_grows: "run ops s = Inr s' \<Longrightarrow> grows (fst s) (fst s')"
proof (induction ops arbitrary: s)
  case Nil
  then show ?case by (simp add: grows_refl)
next
  case (Cons op ops)
  then obtain s1 where "apply_op op s = Inr s1" and "run ops s1 = Inr s'"
    by (cases "apply_op op s") simp_all
  then show ?case
    by (blast intro: grows_trans apply_op_grows Cons.IH)
qed

lemma prefix_nth: "prefix xs ys \<Longrightarrow> i < length xs \<Longrightarrow> ys ! i = xs ! i"
  by (auto simp: prefix_def nth_append)

lemma reached_null:
  assumes "run ops (CircuitData_init, []) = Inr (d, c)"
  shows "m_nodes d \<noteq> [] \<and> m_nodes d ! 0 = None \<and> m_edges d \<noteq> [] \<and> m_edges d ! 0 = None"
proof -
  from run_grows [OF assms]
  have n: "prefix [None] (node_types d)" and e: "prefix [None] (wire_kinds d)"
    by (simp_all add: grows_def node_types_def wire_kinds_def CircuitData_init_def)
  from prefix_length_le [OF n] prefix_length_le [OF e]
  have l: "0 < length (m_nodes d)" "0 < length (m_edges d)"
    by (auto simp: node_types_def wire_kinds_def)
  from prefix_nth [OF n, of 0] prefix_nth [OF e, of 0] l
  show ?thesis
    by (auto simp: node_types_def wire_kinds_def)
qed

lemma run_replicate_add:
  "run (replicate n (Op_add x)) (d, c) = Inr (d\<lparr>m_nodes := m_nodes d @ replicate n (Some x)\<rparr>, c)"
proof (induction n arbitrary: d)
  case 0
  show ?case by simp
next
  case (Suc n)
  show ?case
    by (simp add: Suc.IH add_def replicate_app_Cons_same)
qed

lemma run_main_ops: "run main_ops (CircuitData_init, []) = Inr (main_data 0 0, [])"
  by (simp add: main_ops_def main_data_def add_def CircuitData_init_def connect_at_def
      deref_terminal_def get_def at_vec_def Printer_init_def ROM_init_def romData_def
      connect_eq store_terminal_def NodeTerminal_init_def nullNode_t_def nullEdge_t_def)

lemma run_append:
  "run (xs @ ys) s = (case run xs s of Inl e \<Rightarrow> Inl e | Inr s' \<Rightarrow> run ys s')"
  by (induction xs arbitrary: s) (simp_all split: sum.splits)

text \<open>
  C8. In an arena reached from the constructor by any operations, element 0 of both
  vectors is the null pointer. While \<open>m_nodes\<close> holds fewer than \<open>2 ^ 32\<close> elements, \<open>add\<close>
  appends the node and returns its position, which is not the null identity; likewise
  the identity \<open>connect\<close> gives a new wire while \<open>m_edges\<close> holds fewer than \<open>2 ^ 32\<close>. No
  later sequence of operations removes or moves an element: the node types and the wire
  types and ends of the arena stay a prefix of those of every later arena, so neither
  count decreases, and the identity \<open>add\<close> returned still resolves, at the type of the node
  added, to a node.
\<close>

theorem arena_append_only:
  assumes reach: "run ops0 (CircuitData_init, []) = Inr (rData, cout)"
    and small: "length (m_nodes rData) < 2 ^ 32"
    and alloc: "add rData node = (rData1, i)"
    and later: "run ops (rData1, cout) = Inr (rData2, cout2)"
  shows "m_nodes rData ! 0 = None \<and> m_edges rData ! 0 = None
       \<and> m_nodes rData1 = m_nodes rData @ [Some node] \<and> m_edges rData1 = m_edges rData
       \<and> unat i = length (m_nodes rData) \<and> i \<noteq> nullNode_t
       \<and> (length (m_edges rData) < 2 ^ 32 \<longrightarrow>
            unat (m_id (fst (snd (connect ty rData a b)))) = length (m_edges rData)
            \<and> m_id (fst (snd (connect ty rData a b))) \<noteq> nullEdge_t)
       \<and> prefix (node_types rData1) (node_types rData2)
       \<and> prefix (wire_kinds rData1) (wire_kinds rData2)
       \<and> length (m_nodes rData1) \<le> length (m_nodes rData2)
       \<and> length (m_edges rData1) \<le> length (m_edges rData2)
       \<and> (\<exists>node'. get (node_type_of node) rData2 i = Inr (Some node'))"
proof -
  from reached_null [OF reach]
  have n0: "m_nodes rData \<noteq> []" "m_nodes rData ! 0 = None"
    and e0: "m_edges rData \<noteq> []" "m_edges rData ! 0 = None"
    by simp_all
  from alloc have r1: "rData1 = rData\<lparr>m_nodes := m_nodes rData @ [Some node]\<rparr>"
    and i: "i = of_nat (length (m_nodes rData))"
    by (simp_all add: add_def Let_def)
  from small have ui: "unat i = length (m_nodes rData)"
    unfolding i by (rule unat_of_nat_len)
  with n0 have inz: "i \<noteq> nullNode_t"
    by (auto simp: nullNode_t_def)
  have wires: "length (m_edges rData) < 2 ^ 32 \<longrightarrow>
      unat (m_id (fst (snd (connect ty rData a b)))) = length (m_edges rData)
      \<and> m_id (fst (snd (connect ty rData a b))) \<noteq> nullEdge_t"
  proof
    assume "length (m_edges rData) < 2 ^ 32"
    then have "unat (of_nat (length (m_edges rData)) :: edgeID_t) = length (m_edges rData)"
      by (rule unat_of_nat_len)
    with e0 show "unat (m_id (fst (snd (connect ty rData a b)))) = length (m_edges rData)
      \<and> m_id (fst (snd (connect ty rData a b))) \<noteq> nullEdge_t"
      by (auto simp: connect_eq nullEdge_t_def)
  qed
  from run_grows [OF later]
  have pn: "prefix (node_types rData1) (node_types rData2)"
    and pe: "prefix (wire_kinds rData1) (wire_kinds rData2)"
    by (simp_all add: grows_def)
  from prefix_length_le [OF pn] prefix_length_le [OF pe]
  have ln: "length (m_nodes rData1) \<le> length (m_nodes rData2)"
    and le: "length (m_edges rData1) \<le> length (m_edges rData2)"
    by (simp_all add: node_types_def wire_kinds_def)
  have lt1: "unat i < length (node_types rData1)"
    by (simp add: ui r1 node_types_def)
  from prefix_nth [OF pn lt1]
  have "node_types rData2 ! unat i = Some (node_type_of node)"
    by (simp add: ui r1 node_types_def nth_append)
  moreover from lt1 ln have lt2: "unat i < length (m_nodes rData2)"
    by (simp add: node_types_def)
  ultimately obtain node' where "m_nodes rData2 ! unat i = Some node'"
    and "node_type_of node' = node_type_of node"
    by (auto simp: node_types_def)
  with lt2 have "get (node_type_of node) rData2 i = Inr (Some node')"
    by (simp add: get_def at_vec_def)
  with n0 e0 r1 ui inz wires pn pe ln le show ?thesis
    by auto
qed

theorem arena_append_only_witness:
  "run [] (CircuitData_init, []) = Inr (CircuitData_init, [])
   \<and> length (m_nodes CircuitData_init) < 2 ^ 32
   \<and> add CircuitData_init (Node_Printer_uint32 Printer_init)
       = (CircuitData_init\<lparr>m_nodes := [None, Some (Node_Printer_uint32 Printer_init)]\<rparr>, 1)
   \<and> run [Op_add (Node_ROM (ROM_init romData)),
           Op_connect (K_ROM 16, 2, M_output) (K_Printer T_uint32, 1, M_input),
           Op_process_all, Op_propagate_all]
        (CircuitData_init\<lparr>m_nodes := [None, Some (Node_Printer_uint32 Printer_init)]\<rparr>, [])
       = Inr (main_data 0 1, [0])
   \<and> length (m_edges CircuitData_init) < 2 ^ 32
   \<and> unat (m_id (fst (snd (connect T_uint32 CircuitData_init NodeTerminal_init NodeTerminal_init))))
       = length (m_edges CircuitData_init)
   \<and> (\<exists>node'. get (node_type_of (Node_Printer_uint32 Printer_init)) (main_data 0 1) 1
         = Inr (Some node'))"
proof -
  let ?d1 = "CircuitData_init\<lparr>m_nodes := [None, Some (Node_Printer_uint32 Printer_init)]\<rparr>"
  let ?ops = "[Op_add (Node_ROM (ROM_init romData)),
           Op_connect (K_ROM 16, 2, M_output) (K_Printer T_uint32, 1, M_input),
           Op_process_all, Op_propagate_all]"
  have h1: "run [] (CircuitData_init, []) = Inr (CircuitData_init, [])"
    by simp
  have h2: "length (m_nodes CircuitData_init) < 2 ^ 32"
    and h5: "length (m_edges CircuitData_init) < 2 ^ 32"
    by (simp_all add: CircuitData_init_def)
  have h3: "add CircuitData_init (Node_Printer_uint32 Printer_init) = (?d1, 1)"
    by (simp add: add_def CircuitData_init_def)
  have "run (main_ops @ [Op_process_all, Op_propagate_all]) (CircuitData_init, [])
      = Inr (main_data 0 1, [0])"
    by (simp add: run_append run_main_ops process_all_main_data propagate_all_main_data
        romData_def)
  then have h4: "run ?ops (?d1, []) = Inr (main_data 0 1, [0])"
    by (simp add: main_ops_def add_def CircuitData_init_def)
  note t = arena_append_only [OF h1 h2 h3 h4, of T_uint32 NodeTerminal_init NodeTerminal_init]
  from t h5 have c1: "unat (m_id (fst (snd (connect T_uint32 CircuitData_init NodeTerminal_init
      NodeTerminal_init)))) = length (m_edges CircuitData_init)"
    by blast
  from t have c2: "\<exists>node'. get (node_type_of (Node_Printer_uint32 Printer_init)) (main_data 0 1) 1
      = Inr (Some node')"
    by blast
  show ?thesis
    by (intro conjI h1 h2 h3 h4 h5 c1 c2)
qed

theorem arena_identity_wraps_counterexample:
  "run (replicate 4294967295 (Op_add (Node_Constant Constant_init))) (CircuitData_init, [])
     = Inr (\<lparr>m_edges = [None],
             m_nodes = None # replicate 4294967295 (Some (Node_Constant Constant_init))\<rparr>, [])
   \<and> add \<lparr>m_edges = [None],
          m_nodes = None # replicate 4294967295 (Some (Node_Constant Constant_init))\<rparr>
        (Node_Constant Constant_init)
     = (\<lparr>m_edges = [None],
         m_nodes = None # replicate 4294967295 (Some (Node_Constant Constant_init))
           @ [Some (Node_Constant Constant_init)]\<rparr>,
        nullNode_t)
   \<and> get K_Constant
        \<lparr>m_edges = [None],
         m_nodes = None # replicate 4294967295 (Some (Node_Constant Constant_init))
           @ [Some (Node_Constant Constant_init)]\<rparr>
        nullNode_t
     = Inr None"
  by (simp add: run_replicate_add CircuitData_init_def add_def nullNode_t_def get_def at_vec_def)

subsection \<open>The first tick\<close>

lemma wire_number_new: "wire_number (set_ends (make_wire ty) i j) = 0"
  by (cases ty) simp_all

lemma apply_op_setup:
  assumes "is_setup op" and "apply_op op (d, c) = Inr (d', c')"
    and "list_all holds_default (m_edges d)"
  shows "list_all holds_default (m_edges d') \<and> c' = c"
proof (cases op)
  case (Op_add n)
  with assms show ?thesis by (auto simp: add_def)
next
  case (Op_connect ra rb)
  with assms(2) have r: "connect_at d ra rb = Inr d'" and c: "c' = c"
    by (auto split: sum.splits)
  from connect_at_result [OF r] assms(3) c show ?thesis
    by (auto simp: wire_number_new)
qed (use assms in simp_all)

lemma run_setup:
  "list_all is_setup ops \<Longrightarrow> run ops (d, c) = Inr (d', c') \<Longrightarrow>
   list_all holds_default (m_edges d) \<Longrightarrow> list_all holds_default (m_edges d') \<and> c' = c"
proof (induction ops arbitrary: d c)
  case Nil
  then show ?case by simp
next
  case (Cons op ops)
  from Cons.prems(2) obtain s1 where a: "apply_op op (d, c) = Inr s1" and r: "run ops s1 = Inr (d', c')"
    by (cases "apply_op op (d, c)") simp_all
  obtain d1 c1 where s1: "s1 = (d1, c1)" by (cases s1) auto
  from Cons.prems(1) have "is_setup op" and rest: "list_all is_setup ops"
    by simp_all
  from apply_op_setup [OF this(1) a [unfolded s1] Cons.prems(3)]
  have "list_all holds_default (m_edges d1)" and "c1 = c"
    by simp_all
  with Cons.IH [OF rest r [unfolded s1]] show ?case
    by simp
qed

lemma wire_bool_default:
  assumes "list_all holds_default (m_edges d)"
  shows "wire_bool d t \<noteq> Some True"
proof
  assume "wire_bool d t = Some True"
  then obtain w where w: "get_bool t d = Inr w" and v: "m_value w"
    by (auto simp: wire_bool_def split: sum.splits)
  from get_bool_Inr [OF w] have "Some (WireNode_bool w) \<in> set (m_edges d)"
    by (metis nth_mem)
  with assms have "holds_default (Some (WireNode_bool w))"
    by (blast dest: list_all_iff [THEN iffD1, THEN bspec])
  with v show False by simp
qed

lemma reads_default:
  assumes "list_all holds_default (m_edges d)"
  shows "set (reads d x) \<subseteq> {0}"
proof (cases "(d, x)" rule: reads.cases)
  case (1 rData p)
  show ?thesis
  proof (cases "get_bool (m_input p) d")
    case (Inl e)
    with 1 show ?thesis by simp
  next
    case (Inr w)
    from get_bool_Inr [OF Inr] have "Some (WireNode_bool w) \<in> set (m_edges d)"
      by (metis nth_mem)
    with assms have "holds_default (Some (WireNode_bool w))"
      by (blast dest: list_all_iff [THEN iffD1, THEN bspec])
    with 1 Inr show ?thesis by (simp split: if_splits)
  qed
next
  case (2 rData p)
  show ?thesis
  proof (cases "get_uint32 (m_input p) d")
    case (Inl e)
    with 2 show ?thesis by simp
  next
    case (Inr w)
    from get_uint32_Inr [OF Inr] have "Some (WireNode_uint32 w) \<in> set (m_edges d)"
      by (metis nth_mem)
    with assms have "holds_default (Some (WireNode_uint32 w))"
      by (blast dest: list_all_iff [THEN iffD1, THEN bspec])
    with 2 Inr show ?thesis by simp
  qed
qed simp_all

lemma run_gate_ops: "run gate_ops (CircuitData_init, []) = Inr (gate_data, [])"
  by (simp add: gate_ops_def gate_data_def add_def CircuitData_init_def connect_at_def
      deref_terminal_def get_def at_vec_def Printer_init_def ANDGate_init_def Constant_init_def
      connect_eq store_terminal_def NodeTerminal_init_def nullNode_t_def nullEdge_t_def)

lemma upt_4: "[0..<4] = [0, 1, 2, 3]"
  by (simp add: upt_rec)

lemma process_all_gate_data: "process_all (gate_data, []) = Inr (gate_data, [0])"
  by (simp add: process_all_def gate_data_def upt_4 run_node_def get_bool_def at_vec_def
      nullNode_t_def)

text \<open>
  C10. The wire \<open>connect\<close> creates holds the default value of its type. After any
  construction, that is any sequence of \<open>add\<close> and \<open>connect\<close> from the constructor, every
  wire of the arena still holds it and nothing has been written; the first \<open>process_all\<close>
  leaves the wires so, every line a printer writes in it is 0, and every AND gate has
  latched false.
\<close>

theorem fresh_wires_hold_default:
  assumes "list_all is_setup ops"
    and "run ops (CircuitData_init, []) = Inr (rData, cout)"
    and "process_all (rData, cout) = Inr (rData', cout')"
  shows "holds_default (last (m_edges (fst (connect ty rData a b))))
       \<and> list_all holds_default (m_edges rData) \<and> cout = []
       \<and> m_edges rData' = m_edges rData
       \<and> set cout' \<subseteq> {0}
       \<and> (\<forall>i g. i < length (m_nodes rData') \<and> m_nodes rData' ! i = Some (Node_ANDGate g)
            \<longrightarrow> \<not> m_outVal g)"
proof -
  have new: "holds_default (last (m_edges (fst (connect ty rData a b))))"
    by (simp add: connect_eq wire_number_new)
  have "list_all holds_default (m_edges CircuitData_init)"
    by (simp add: CircuitData_init_def)
  from run_setup [OF assms(1,2) this]
  have d: "list_all holds_default (m_edges rData)" and c: "cout = []"
    by simp_all
  from process_all_result [OF assms(3)]
  have e: "m_edges rData' = m_edges rData"
    and n: "m_nodes rData' = map (map_option (latch rData)) (m_nodes rData)"
    and c': "cout' = cout @ concat (map (reads rData) (m_nodes rData))"
    by simp_all
  have out: "set cout' \<subseteq> {0}"
    using reads_default [OF d] by (auto simp: c' c)
  have gates: "\<forall>i g. i < length (m_nodes rData') \<and> m_nodes rData' ! i = Some (Node_ANDGate g)
      \<longrightarrow> \<not> m_outVal g"
  proof (intro allI impI)
    fix i g assume a: "i < length (m_nodes rData') \<and> m_nodes rData' ! i = Some (Node_ANDGate g)"
    then have "i < length (m_nodes rData)"
      and "map (map_option (latch rData)) (m_nodes rData) ! i = Some (Node_ANDGate g)"
      by (simp_all add: n)
    then have "map_option (latch rData) (m_nodes rData ! i) = Some (Node_ANDGate g)"
      by simp
    then obtain x where x: "latch rData x = Node_ANDGate g"
      by auto
    then show "\<not> m_outVal g"
      using wire_bool_default [OF d] by (cases x) auto
  qed
  from new d c e out gates show ?thesis
    by simp
qed

theorem fresh_wires_hold_default_witness:
  "list_all is_setup gate_ops
   \<and> run gate_ops (CircuitData_init, []) = Inr (gate_data, [])
   \<and> process_all (gate_data, []) = Inr (gate_data, [0])
   \<and> 1 < length (m_nodes gate_data)
   \<and> m_nodes gate_data ! 1
       = Some (Node_ANDGate \<lparr>m_inA = \<lparr>m_parentID = 0, m_id = 1\<rparr>,
                m_inB = \<lparr>m_parentID = 0, m_id = 0\<rparr>,
                ANDGate.m_output = \<lparr>m_parentID = 0, m_id = 2\<rparr>, m_outVal = False\<rparr>)
   \<and> list_all holds_default (m_edges gate_data)
   \<and> set [0 :: nat] \<subseteq> {0}
   \<and> \<not> m_outVal \<lparr>m_inA = \<lparr>m_parentID = 0, m_id = 1\<rparr>,
                m_inB = \<lparr>m_parentID = 0, m_id = 0\<rparr>,
                ANDGate.m_output = \<lparr>m_parentID = 0, m_id = 2\<rparr>, m_outVal = False\<rparr>"
proof -
  let ?g = "\<lparr>m_inA = \<lparr>m_parentID = 0, m_id = 1\<rparr>, m_inB = \<lparr>m_parentID = 0, m_id = 0\<rparr>,
              ANDGate.m_output = \<lparr>m_parentID = 0, m_id = 2\<rparr>, m_outVal = False\<rparr>"
  have h1: "list_all is_setup gate_ops"
    by (simp add: gate_ops_def)
  have h4: "1 < length (m_nodes gate_data)" and h5: "m_nodes gate_data ! 1 = Some (Node_ANDGate ?g)"
    by (simp_all add: gate_data_def)
  note t = fresh_wires_hold_default [OF h1 run_gate_ops process_all_gate_data]
  from t have c1: "list_all holds_default (m_edges gate_data)" and c2: "set [0 :: nat] \<subseteq> {0}"
    by blast+
  from t h4 h5 have c3: "\<not> m_outVal ?g"
    by blast
  show ?thesis
    by (intro conjI h1 run_gate_ops process_all_gate_data h4 h5 c1 c2 c3)
qed

end
